theory Spec2Isabelle
  imports Main
begin

section \<open>The document model of \<open>timeline.js\<close>\<close>

text \<open>
  The class \<open>Json\<close> owns one JavaScript object, \<open>#data\<close>, with six top-level fields.
  Field names that several kinds of object share (\<open>id\<close>, \<open>name\<close>, \<open>start\<close>, \<open>visible\<close>,
  ...) carry the kind as a prefix here, since record fields are global constants.
\<close>

type_synonym timestamp = int

text \<open>
  The value of \<open>visible\<close> in a group. \<open>addGroup\<close> and \<open>toggleGroupVisibility\<close> write
  booleans; \<open>PanelGroups.fromHtml\<close>, whose result the groups panel assigns to
  \<open>data.groups\<close> after every drag, writes the attribute text (\<open>'true'\<close> or \<open>'false'\<close>); a
  parsed file may leave the key out. \<open>truthy v\<close> is what \<open>if(v)\<close> and \<open>!v\<close> make of it.
\<close>

datatype flag = JsBool bool | JsString string | JsUndefined

fun truthy :: "flag \<Rightarrow> bool" where
  "truthy (JsBool b) = b"
| "truthy (JsString str) = (str \<noteq> [])"
| "truthy JsUndefined = False"

text \<open>A group of the forest \<open>data.groups\<close>; \<open>childs\<close> is the source's spelling.\<close>

datatype group = Group
  (group_id: string)
  (group_name: string)
  (group_category: string)
  (group_position: int)
  (group_visible: flag)
  (group_childs: "group list")

text \<open>
  A value that the code treats as a date: what \<open>addMarker\<close>, \<open>addEra\<close> and the item
  dialogs store, and what a parsed file holds. A text is given by what \<open>Date.parse\<close>
  makes of it, not by its characters; numbers are integral.
\<close>

datatype date_value =
    DateObject "int option"
  | DateText "int option"
  | EmptyText
  | DateNumber int
  | DateNull
  | DateUndefined

text \<open>
  \<open>DateObject t\<close> is a \<open>Date\<close> with time value \<open>t\<close>, \<open>None\<close> for an invalid date;
  \<open>DateText t\<close> is a text that is not empty and parses to \<open>t\<close>, \<open>None\<close> when it is no
  date; \<open>EmptyText\<close> is \<open>''\<close>, as a cleared date field gives it.

  \<open>getTime v\<close> is \<open>new Date(v).getTime()\<close>, with \<open>None\<close> for \<open>NaN\<close>: a time value
  beyond 8.64e15 milliseconds is no date, and \<open>null\<close> counts as 0.
\<close>

definition TimeClip :: "int \<Rightarrow> int option" where
  "TimeClip t = (if \<bar>t\<bar> \<le> 8640000000000000 then Some t else None)"

fun getTime :: "date_value \<Rightarrow> int option" where
  "getTime (DateObject t) = (case t of None \<Rightarrow> None | Some x \<Rightarrow> TimeClip x)"
| "getTime (DateText t) = (case t of None \<Rightarrow> None | Some x \<Rightarrow> TimeClip x)"
| "getTime EmptyText = None"
| "getTime (DateNumber n) = TimeClip n"
| "getTime DateNull = Some 0"
| "getTime DateUndefined = None"

text \<open>\<open>a <= b\<close> on two such numbers: false as soon as one of them is \<open>NaN\<close>.\<close>

fun number_le :: "int option \<Rightarrow> int option \<Rightarrow> bool" where
  "number_le (Some a) (Some b) = (a \<le> b)"
| "number_le _ _ = False"

text \<open>\<open>if(v)\<close> on a date argument.\<close>

fun truthy_date :: "date_value \<Rightarrow> bool" where
  "truthy_date (DateObject t) = True"
| "truthy_date (DateText t) = True"
| "truthy_date EmptyText = False"
| "truthy_date (DateNumber n) = (n \<noteq> 0)"
| "truthy_date DateNull = False"
| "truthy_date DateUndefined = False"

text \<open>
  An item of \<open>data.items\<close>, and also the payload of \<open>addItem\<close>, \<open>updateItem\<close> and
  \<open>removeItem\<close>: a JavaScript object in which every key may be absent. \<open>None\<close> is an
  absent key, so \<open>'start' in data\<close> is \<open>item_start data \<noteq> None\<close>.
\<close>

record item =
  item_id :: "string option"
  item_group :: "string option"
  item_content :: "string option"
  item_className :: "string option"
  item_type :: "string option"
  item_start :: "date_value option"
  item_end :: "date_value option"
  item_description :: "string option"

record style =
  fg :: string
  bg :: string
  border :: string

record era =
  era_text :: string
  era_start :: date_value
  era_end :: date_value
  era_color :: string
  era_visible :: bool

record marker =
  marker_name :: string
  marker_date :: date_value

record configuration_t =
  config_locale :: "string option"
  config_startDate :: "timestamp option"
  config_endDate :: "timestamp option"

section \<open>Keys that an object inherits\<close>

text \<open>
  The code asks \<open>key in object\<close>, which is true for the object's own keys and also for
  every name that its prototype defines. For an object written as \<open>{}\<close> or read by
  \<open>JSON.parse\<close> these are the names of \<open>Object.prototype\<close>; an array has its own
  \<open>length\<close> and the names of \<open>Array.prototype\<close> in addition (the lists are those of
  ECMAScript 2023). What is found under such a name is a built-in function, the
  prototype itself (under \<open>__proto__\<close>) or a number (the \<open>length\<close> of an array).
\<close>

definition Object_prototype :: "string list" where
  "Object_prototype =
     [''constructor'', ''__defineGetter__'', ''__defineSetter__'', ''hasOwnProperty'',
      ''__lookupGetter__'', ''__lookupSetter__'', ''isPrototypeOf'',
      ''propertyIsEnumerable'', ''toString'', ''valueOf'', ''__proto__'',
      ''toLocaleString'']"

definition Array_prototype :: "string list" where
  "Array_prototype =
     [''constructor'', ''at'', ''concat'', ''copyWithin'', ''fill'', ''find'',
      ''findIndex'', ''findLast'', ''findLastIndex'', ''lastIndexOf'', ''pop'', ''push'',
      ''reverse'', ''shift'', ''unshift'', ''slice'', ''sort'', ''splice'', ''includes'',
      ''indexOf'', ''join'', ''keys'', ''entries'', ''values'', ''forEach'', ''filter'',
      ''flat'', ''flatMap'', ''map'', ''every'', ''some'', ''reduce'', ''reduceRight'',
      ''toLocaleString'', ''toString'', ''toReversed'', ''toSorted'', ''toSpliced'',
      ''with'']"

datatype builtin = BuiltinFunction | BuiltinObject | BuiltinNumber

definition inherited_name :: "string \<Rightarrow> builtin option" where
  "inherited_name k =
     (if k = ''__proto__'' then Some BuiltinObject
      else if k \<in> set Object_prototype then Some BuiltinFunction
      else None)"

definition inherited_array_name :: "string \<Rightarrow> builtin option" where
  "inherited_array_name k =
     (if k = ''length'' then Some BuiltinNumber
      else if k \<in> set Array_prototype then Some BuiltinFunction
      else inherited_name k)"

text \<open>
  An assignment \<open>object[key].field = value\<close> that lands on a built-in value, in the
  strict mode of a class body: a number takes no property, a function has a read-only
  \<open>name\<close> and \<open>length\<close>, and every other write goes to the built-in object, outside
  the document. \<open>True\<close> when the assignment throws a \<open>TypeError\<close>. A write that lands
  on a prototype (under \<open>__proto__\<close>) adds a name to it for the calls that follow.
\<close>

fun write_throws :: "builtin \<Rightarrow> string \<Rightarrow> bool" where
  "write_throws BuiltinNumber field = True"
| "write_throws BuiltinFunction field = (field = ''name'' \<or> field = ''length'')"
| "write_throws BuiltinObject field = False"

text \<open>
  \<open>data.eras\<close> is used as a string-keyed collection (\<open>uuid in eras\<close>, \<open>eras[uuid] = ...\<close>,
  \<open>Object.entries(eras)\<close>), but the value that holds it is either a plain object or an
  array: \<open>load\<close> backfills a missing \<open>eras\<close> with \<open>[]\<close>. Both kinds carry own named
  properties in insertion order; they differ in the names they inherit and in what
  \<open>JSON.stringify\<close> writes. \<open>JsArray ps\<close> is an array without elements (length 0)
  carrying the named properties \<open>ps\<close>. The keys are the uuids of the application, not
  decimal numerals: a numeral key would be an element of the array, and the first in
  the order of \<open>Object.entries\<close>.
\<close>

datatype 'a js_coll =
    JsObject "(string \<times> 'a) list"
  | JsArray "(string \<times> 'a) list"

fun entries :: "'a js_coll \<Rightarrow> (string \<times> 'a) list" where
  "entries (JsObject ps) = ps"
| "entries (JsArray ps) = ps"

fun with_entries :: "'a js_coll \<Rightarrow> (string \<times> 'a) list \<Rightarrow> 'a js_coll" where
  "with_entries (JsObject _) ps = JsObject ps"
| "with_entries (JsArray _) ps = JsArray ps"

fun inherited_in :: "'a js_coll \<Rightarrow> string \<Rightarrow> builtin option" where
  "inherited_in (JsObject _) k = inherited_name k"
| "inherited_in (JsArray _) k = inherited_array_name k"

text \<open>
  \<open>own_key\<close> is an entry of the collection itself; \<open>has_key k c\<close> is \<open>k in c\<close>;
  \<open>get_prop\<close> reads an own entry; \<open>set_prop\<close> is \<open>c[k] = v\<close> and \<open>delete_prop\<close> is
  \<open>delete c[k]\<close>, both on a key that is own or new.
\<close>

definition own_key :: "string \<Rightarrow> 'a js_coll \<Rightarrow> bool" where
  "own_key k c = (k \<in> fst ` set (entries c))"

definition has_key :: "string \<Rightarrow> 'a js_coll \<Rightarrow> bool" where
  "has_key k c = (own_key k c \<or> inherited_in c k \<noteq> None)"

definition get_prop :: "'a js_coll \<Rightarrow> string \<Rightarrow> 'a option" where
  "get_prop c k = map_of (entries c) k"

fun assign :: "string \<Rightarrow> 'a \<Rightarrow> (string \<times> 'a) list \<Rightarrow> (string \<times> 'a) list" where
  "assign k v [] = [(k, v)]"
| "assign k v ((k', v') # ps) =
     (if k' = k then (k, v) # ps else (k', v') # assign k v ps)"

definition set_prop :: "string \<Rightarrow> 'a \<Rightarrow> 'a js_coll \<Rightarrow> 'a js_coll" where
  "set_prop k v c = with_entries c (assign k v (entries c))"

definition delete_prop :: "string \<Rightarrow> 'a js_coll \<Rightarrow> 'a js_coll" where
  "delete_prop k c = with_entries c (filter (\<lambda>p. fst p \<noteq> k) (entries c))"

text \<open>
  The in-memory document after \<open>load\<close>: all six fields are present. The two maps that
  the store only reads and writes by key are partial functions on their own keys; both
  are plain objects, so \<open>k in m\<close> is \<open>k \<in> dom m \<or> inherited_name k \<noteq> None\<close>.
\<close>

record document =
  configuration :: configuration_t
  groups :: "group list"
  items :: "item list"
  item_categories :: "string \<rightharpoonup> style"
  eras :: "era js_coll"
  markers :: "string \<rightharpoonup> marker"

text \<open>
  The store: the document and the number of \<open>updated\<close> events dispatched so far
  (\<open>this.dispatchEvent(this.#eventUpdated)\<close> adds one). The third field tells whether
  the built-in prototypes are still as the engine created them: it turns false when a
  call writes to one of them, and from then on the names that objects inherit may be
  more than the lists above say.
\<close>

record store =
  data :: document
  dispatched :: nat
  prototypes_untouched :: bool

definition dispatchEvent :: "store \<Rightarrow> store" where
  "dispatchEvent s = s\<lparr>dispatched := Suc (dispatched s)\<rparr>"

definition DEFAULT_STYLE :: style where
  "DEFAULT_STYLE = \<lparr>fg = ''#1a1a1a'', bg = ''#d5ddf6'', border = ''#97b0f8''\<rparr>"

definition BACKGROUND :: string where
  "BACKGROUND = ''background''"

text \<open>
  How a call ends: with the returned flag or with an exception. The store comes with it
  in both cases.
\<close>

datatype js_error = SyntaxError | TypeError | RangeError

datatype outcome = Returned bool | Threw js_error

definition returned :: "bool \<times> store \<Rightarrow> outcome \<times> store" where
  "returned r = (Returned (fst r), snd r)"

section \<open>Group operations\<close>

text \<open>
  \<open>removeGroup(id, parent)\<close>, \<open>renameGroup\<close> and \<open>toggleGroupVisibility\<close> loop over
  \<open>parent.childs\<close> (the root list when \<open>parent\<close> is null) and call themselves on every
  group that is not the target. Each function below is that loop on one list; it returns
  the flag, the list as the calls leave it, and the number of events dispatched, in the
  inner calls and in this one. \<open>group.visible = !group.visible\<close> stores a boolean,
  whatever was there before.
\<close>

function removeGroup_in :: "string \<Rightarrow> group list \<Rightarrow> bool \<times> group list \<times> nat" where
  "removeGroup_in i [] = (False, [], 0)"
| "removeGroup_in i (Group gi n c p v ch # rest) =
     (if gi = i then (True, rest, 1)
      else (case removeGroup_in i ch of
              (removed, ch', k) \<Rightarrow>
                if removed then (True, Group gi n c p v ch' # rest, k + 1)
                else (case removeGroup_in i rest of
                        (r, rest', k') \<Rightarrow> (r, Group gi n c p v ch' # rest', k + k'))))"
  by pat_completeness auto
termination
  by (relation "measure (\<lambda>(i, gs). size_list size gs)") auto

function renameGroup_in :: "string \<Rightarrow> string \<Rightarrow> group list \<Rightarrow> bool \<times> group list \<times> nat" where
  "renameGroup_in i nm [] = (False, [], 0)"
| "renameGroup_in i nm (Group gi n c p v ch # rest) =
     (if gi = i then (True, Group gi nm c p v ch # rest, 1)
      else (case renameGroup_in i nm ch of
              (renamed, ch', k) \<Rightarrow>
                if renamed then (True, Group gi n c p v ch' # rest, k + 1)
                else (case renameGroup_in i nm rest of
                        (r, rest', k') \<Rightarrow> (r, Group gi n c p v ch' # rest', k + k'))))"
  by pat_completeness auto
termination
  by (relation "measure (\<lambda>(i, nm, gs). size_list size gs)") auto

function toggleGroupVisibility_in :: "string \<Rightarrow> group list \<Rightarrow> bool \<times> group list \<times> nat" where
  "toggleGroupVisibility_in i [] = (False, [], 0)"
| "toggleGroupVisibility_in i (Group gi n c p v ch # rest) =
     (if gi = i then (True, Group gi n c p (JsBool (\<not> truthy v)) ch # rest, 1)
      else (case toggleGroupVisibility_in i ch of
              (toggled, ch', k) \<Rightarrow>
                if toggled then (True, Group gi n c p v ch' # rest, k + 1)
                else (case toggleGroupVisibility_in i rest of
                        (r, rest', k') \<Rightarrow> (r, Group gi n c p v ch' # rest', k + k'))))"
  by pat_completeness auto
termination
  by (relation "measure (\<lambda>(i, gs). size_list size gs)") auto

text \<open>The public methods, called without \<open>parent\<close>: the search starts at \<open>data.groups\<close>.\<close>

definition with_groups :: "store \<Rightarrow> bool \<times> group list \<times> nat \<Rightarrow> bool \<times> store" where
  "with_groups s r =
     (case r of (b, gs, k) \<Rightarrow>
        (b, s\<lparr>data := (data s)\<lparr>groups := gs\<rparr>, dispatched := dispatched s + k\<rparr>))"

definition removeGroup :: "string \<Rightarrow> store \<Rightarrow> bool \<times> store" where
  "removeGroup i s = with_groups s (removeGroup_in i (groups (data s)))"

definition renameGroup :: "string \<Rightarrow> string \<Rightarrow> store \<Rightarrow> bool \<times> store" where
  "renameGroup i nm s =
     (if nm = [] then (False, s)
      else with_groups s (renameGroup_in i nm (groups (data s))))"

definition toggleGroupVisibility :: "string \<Rightarrow> store \<Rightarrow> bool \<times> store" where
  "toggleGroupVisibility i s = with_groups s (toggleGroupVisibility_in i (groups (data s)))"

text \<open>
  \<open>addGroup(name)\<close>. The id comes from \<open>uuidv4()\<close>; the fresh value is an argument of
  the model.
\<close>

definition addGroup :: "string \<Rightarrow> string \<Rightarrow> store \<Rightarrow> bool \<times> store" where
  "addGroup uuid nm s =
     (if nm = [] then (False, s)
      else (True, dispatchEvent (s\<lparr>data := (data s)\<lparr>groups :=
              groups (data s) @
                [Group uuid nm [] (int (length (groups (data s))) + 1) (JsBool True) []]\<rparr>\<rparr>)))"

section \<open>Item operations\<close>

text \<open>
  The payload of the three item methods is an object or a falsy value; \<open>None\<close> is the
  falsy payload (\<open>!data\<close>). The scan of \<open>addItem\<close> for an item with the same id:
\<close>

fun hasItemId :: "string option \<Rightarrow> item list \<Rightarrow> bool" where
  "hasItemId i [] = False"
| "hasItemId i (it # rest) = (if item_id it = i then True else hasItemId i rest)"

text \<open>
  \<open>if(!(className in item_categories)) item_categories[className] = copy of the default\<close>:
  nothing is assigned when the name is an own key or an inherited one.
\<close>

definition ensureCategory :: "string \<Rightarrow> (string \<rightharpoonup> style) \<Rightarrow> (string \<rightharpoonup> style)" where
  "ensureCategory c cats =
     (if c \<in> dom cats \<or> inherited_name c \<noteq> None then cats
      else cats(c \<mapsto> DEFAULT_STYLE))"

definition addItem :: "item option \<Rightarrow> store \<Rightarrow> bool \<times> store" where
  "addItem payload s =
     (case payload of
        None \<Rightarrow> (False, s)
      | Some d \<Rightarrow>
          if item_id d = None then (False, s)
          else if hasItemId (item_id d) (items (data s)) then (False, s)
          else (True, dispatchEvent (s\<lparr>data := (data s)
                  \<lparr>items := items (data s) @ [d],
                   item_categories :=
                     (case item_className d of
                        None \<Rightarrow> item_categories (data s)
                      | Some c \<Rightarrow> ensureCategory c (item_categories (data s)))\<rparr>\<rparr>)))"

text \<open>The assignments of \<open>updateItem\<close> to the item found, one per key of the payload.\<close>

definition assignFields :: "item \<Rightarrow> item \<Rightarrow> item" where
  "assignFields d it =
     it\<lparr>item_group := (if item_group d \<noteq> None then item_group d else item_group it),
        item_content := (if item_content d \<noteq> None then item_content d else item_content it),
        item_start := (if item_start d \<noteq> None then item_start d else item_start it),
        item_end := (if item_end d \<noteq> None then item_end d else item_end it),
        item_type := (if item_type d \<noteq> None then item_type d else item_type it),
        item_className :=
          (if item_className d \<noteq> None then item_className d else item_className it),
        item_description :=
          (if item_description d \<noteq> None then item_description d else item_description it)\<rparr>"

text \<open>The loop of \<open>updateItem\<close>: \<open>None\<close> when it ends without a match.\<close>

fun updateItem_in :: "item \<Rightarrow> item list \<Rightarrow> item list option" where
  "updateItem_in d [] = None"
| "updateItem_in d (it # rest) =
     (if item_id it \<noteq> item_id d then map_option ((#) it) (updateItem_in d rest)
      else Some (assignFields d it # rest))"

definition updateItem :: "item option \<Rightarrow> store \<Rightarrow> bool \<times> store" where
  "updateItem payload s =
     (case payload of
        None \<Rightarrow> (False, s)
      | Some d \<Rightarrow>
          if item_id d = None then (False, s)
          else (case updateItem_in d (items (data s)) of
                  None \<Rightarrow> (False, s)
                | Some its \<Rightarrow>
                    (True, dispatchEvent (s\<lparr>data := (data s)
                       \<lparr>items := its,
                        item_categories :=
                          (case item_className d of
                             None \<Rightarrow> item_categories (data s)
                           | Some c \<Rightarrow> ensureCategory c (item_categories (data s)))\<rparr>\<rparr>))))"

fun removeItem_in :: "item \<Rightarrow> item list \<Rightarrow> item list option" where
  "removeItem_in d [] = None"
| "removeItem_in d (it # rest) =
     (if item_id it \<noteq> item_id d then map_option ((#) it) (removeItem_in d rest)
      else Some rest)"

definition removeItem :: "item option \<Rightarrow> store \<Rightarrow> bool \<times> store" where
  "removeItem payload s =
     (case payload of
        None \<Rightarrow> (False, s)
      | Some d \<Rightarrow>
          if item_id d = None then (False, s)
          else (case removeItem_in d (items (data s)) of
                  None \<Rightarrow> (False, s)
                | Some its \<Rightarrow>
                    (True, dispatchEvent (s\<lparr>data := (data s)\<lparr>items := its\<rparr>\<rparr>))))"

section \<open>Marker operations\<close>

text \<open>
  The store after a call that got past its guard on an inherited name: it is the same
  store, except that a write, if there was one and it landed on a prototype, is
  recorded.
\<close>

definition written :: "builtin \<Rightarrow> bool \<Rightarrow> store \<Rightarrow> store" where
  "written b wrote s =
     (if b = BuiltinObject \<and> wrote then s\<lparr>prototypes_untouched := False\<rparr> else s)"

text \<open>
  Arguments that a caller may pass as \<open>null\<close> are options. A string is truthy when it
  is not empty. \<open>ifTruthy x old\<close> is the value of a string field after
  \<open>if(x) { field = x; }\<close>, and \<open>ifTruthyDate\<close> the same for a date.
\<close>

definition truthy_string :: "string option \<Rightarrow> bool" where
  "truthy_string x = (case x of None \<Rightarrow> False | Some str \<Rightarrow> str \<noteq> [])"

definition ifTruthy :: "string option \<Rightarrow> string \<Rightarrow> string" where
  "ifTruthy x old = (case x of None \<Rightarrow> old | Some str \<Rightarrow> if str = [] then old else str)"

definition truthy_date_arg :: "date_value option \<Rightarrow> bool" where
  "truthy_date_arg x = (case x of None \<Rightarrow> False | Some v \<Rightarrow> truthy_date v)"

definition ifTruthyDate :: "date_value option \<Rightarrow> date_value \<Rightarrow> date_value" where
  "ifTruthyDate x old =
     (case x of None \<Rightarrow> old | Some v \<Rightarrow> if truthy_date v then v else old)"

definition addMarker :: "string \<Rightarrow> string \<Rightarrow> date_value \<Rightarrow> store \<Rightarrow> bool \<times> store" where
  "addMarker uuid nm date s =
     (if uuid \<in> dom (markers (data s)) \<or> inherited_name uuid \<noteq> None then (False, s)
      else (True, s\<lparr>data := (data s)\<lparr>markers :=
              (markers (data s))(uuid \<mapsto> \<lparr>marker_name = nm, marker_date = date\<rparr>)\<rparr>\<rparr>))"

text \<open>\<open>delete\<close> of a key that is only inherited removes nothing and does not throw.\<close>

definition removeMarker :: "string \<Rightarrow> store \<Rightarrow> bool \<times> store" where
  "removeMarker uuid s =
     (if \<not> (uuid \<in> dom (markers (data s)) \<or> inherited_name uuid \<noteq> None) then (False, s)
      else (True, s\<lparr>data := (data s)\<lparr>markers := (markers (data s))(uuid := None)\<rparr>\<rparr>))"

text \<open>
  \<open>updateMarker\<close>. On an own key the marker is written. On a key that is only
  inherited, \<open>markers[uuid]\<close> is a built-in value: the assignment to its \<open>name\<close> throws
  when that value is a function, and the other writes leave the document alone.
\<close>

definition updateMarker ::
  "string \<Rightarrow> string option \<Rightarrow> date_value option \<Rightarrow> store \<Rightarrow> outcome \<times> store" where
  "updateMarker uuid nm date s =
     (case markers (data s) uuid of
        Some m \<Rightarrow>
          (Returned True, s\<lparr>data := (data s)\<lparr>markers := (markers (data s))(uuid \<mapsto>
             m\<lparr>marker_name := ifTruthy nm (marker_name m),
               marker_date := ifTruthyDate date (marker_date m)\<rparr>)\<rparr>\<rparr>)
      | None \<Rightarrow>
          (case inherited_name uuid of
             None \<Rightarrow> (Returned False, s)
           | Some b \<Rightarrow>
               if truthy_string nm \<and> write_throws b ''name'' then (Threw TypeError, s)
               else if truthy_date_arg date \<and> write_throws b ''date'' then (Threw TypeError, s)
               else (Returned True,
                     written b (truthy_string nm \<or> truthy_date_arg date) s)))"

section \<open>Era operations\<close>

definition addEra ::
  "string \<Rightarrow> string \<Rightarrow> date_value \<Rightarrow> date_value \<Rightarrow> string \<Rightarrow> store \<Rightarrow> bool \<times> store" where
  "addEra uuid txt startDate endDate color s =
     (if has_key uuid (eras (data s)) then (False, s)
      else (True, s\<lparr>data := (data s)\<lparr>eras := set_prop uuid
              \<lparr>era_text = txt, era_start = startDate, era_end = endDate,
               era_color = color, era_visible = True\<rparr> (eras (data s))\<rparr>\<rparr>))"

text \<open>
  \<open>removeEra\<close>. \<open>delete\<close> of a key that is only inherited removes nothing; the own
  \<open>length\<close> of an array cannot be deleted, and the attempt throws in strict mode.
\<close>

definition removeEra :: "string \<Rightarrow> store \<Rightarrow> outcome \<times> store" where
  "removeEra uuid s =
     (if \<not> has_key uuid (eras (data s)) then (Returned False, s)
      else if \<not> own_key uuid (eras (data s)) \<and>
              inherited_in (eras (data s)) uuid = Some BuiltinNumber
      then (Threw TypeError, s)
      else (Returned True, s\<lparr>data := (data s)\<lparr>eras := delete_prop uuid (eras (data s))\<rparr>\<rparr>))"

text \<open>
  \<open>updateEra\<close> and \<open>toggleEraVisibility\<close> write the fields of \<open>eras[uuid]\<close>: of the era
  on an own key, of a built-in value on a key that is only inherited.
\<close>

definition updateEra ::
  "string \<Rightarrow> string option \<Rightarrow> date_value option \<Rightarrow> date_value option \<Rightarrow> string option \<Rightarrow>
   store \<Rightarrow> outcome \<times> store" where
  "updateEra uuid txt startDate endDate color s =
     (case get_prop (eras (data s)) uuid of
        Some e \<Rightarrow>
          (Returned True, s\<lparr>data := (data s)\<lparr>eras := set_prop uuid
             (e\<lparr>era_text := ifTruthy txt (era_text e),
                era_start := ifTruthyDate startDate (era_start e),
                era_end := ifTruthyDate endDate (era_end e),
                era_color := ifTruthy color (era_color e)\<rparr>)
             (eras (data s))\<rparr>\<rparr>)
      | None \<Rightarrow>
          (case inherited_in (eras (data s)) uuid of
             None \<Rightarrow> (Returned False, s)
           | Some b \<Rightarrow>
               if truthy_string txt \<and> write_throws b ''text'' then (Threw TypeError, s)
               else if truthy_date_arg startDate \<and> write_throws b ''start''
               then (Threw TypeError, s)
               else if truthy_date_arg endDate \<and> write_throws b ''end''
               then (Threw TypeError, s)
               else if truthy_string color \<and> write_throws b ''color''
               then (Threw TypeError, s)
               else (Returned True,
                     written b (truthy_string txt \<or> truthy_date_arg startDate \<or>
                       truthy_date_arg endDate \<or> truthy_string color) s)))"

definition toggleEraVisibility :: "string \<Rightarrow> store \<Rightarrow> outcome \<times> store" where
  "toggleEraVisibility uuid s =
     (case get_prop (eras (data s)) uuid of
        Some e \<Rightarrow>
          (Returned True, s\<lparr>data := (data s)\<lparr>eras := set_prop uuid
             (e\<lparr>era_visible := \<not> era_visible e\<rparr>) (eras (data s))\<rparr>\<rparr>)
      | None \<Rightarrow>
          (case inherited_in (eras (data s)) uuid of
             None \<Rightarrow> (Returned False, s)
           | Some b \<Rightarrow>
               if write_throws b ''visible'' then (Threw TypeError, s)
               else (Returned True, written b True s)))"

section \<open>Loading and saving\<close>

text \<open>
  What \<open>JSON.parse\<close> returns for a document file: an object in which each of the six
  fields may be missing; a field that is present holds an object or an array, which is
  truthy. Where the code calls array methods, on \<open>groups\<close> and on the \<open>childs\<close> of a
  group, the value may also be missing or \<open>null\<close> (\<open>NoArray\<close>) or something that is not
  an array (\<open>NotAnArray\<close>); the elements of such an array are objects. A text that does
  not parse, or that parses to something else than an object, is an error value.
\<close>

datatype raw_group = RawGroup
  (raw_id: string)
  (raw_name: string)
  (raw_category: string)
  (raw_position: int)
  (raw_visible: flag)
  (raw_childs: raw_array)
and raw_array = NoArray | NotAnArray | GroupArray "raw_group list"

record raw_document =
  raw_configuration :: "configuration_t option"
  raw_groups :: raw_array
  raw_items :: "item list option"
  raw_item_categories :: "(string \<rightharpoonup> style) option"
  raw_eras :: "era js_coll option"
  raw_markers :: "(string \<rightharpoonup> marker) option"

definition empty_object :: raw_document where
  "empty_object = \<lparr>raw_configuration = None, raw_groups = NoArray, raw_items = None,
     raw_item_categories = None, raw_eras = None, raw_markers = None\<rparr>"

text \<open>The first exception of a sequence of calls, or all their results.\<close>

fun first_error :: "('e + 'a) list \<Rightarrow> 'e + 'a list" where
  "first_error [] = Inr []"
| "first_error (x # xs) =
     (case x of
        Inl e \<Rightarrow> Inl e
      | Inr y \<Rightarrow> (case first_error xs of Inl e \<Rightarrow> Inl e | Inr ys \<Rightarrow> Inr (y # ys)))"

text \<open>
  \<open>#sortGroups(groups)\<close> on an array: \<open>Array.prototype.sort\<close> with a comparator on
  \<open>position\<close> is a stable ascending sort, which \<open>sort_key\<close> is; then the method calls
  itself on the \<open>childs\<close> of every group of the sorted list, in order. When \<open>childs\<close> is
  missing or \<open>null\<close>, the parameter takes its default \<open>null\<close> and the call starts over at
  \<open>this.data.groups\<close>, where it meets the same group again: the recursion has no end
  and the engine throws a \<open>RangeError\<close>. When \<open>childs\<close> is not an array, it has no
  \<open>sort\<close>: a \<open>TypeError\<close>.
\<close>

function sortGroups :: "raw_group list \<Rightarrow> js_error + group list" where
  "sortGroups gs =
     first_error (map (\<lambda>g. case g of RawGroup gi n c p v childs \<Rightarrow>
         (case childs of
            NoArray \<Rightarrow> Inl RangeError
          | NotAnArray \<Rightarrow> Inl TypeError
          | GroupArray ch \<Rightarrow>
              (case sortGroups ch of
                 Inl e \<Rightarrow> Inl e
               | Inr ch' \<Rightarrow> Inr (Group gi n c p v ch'))))
       (sort_key raw_position gs))"
  by pat_completeness auto
termination
proof (relation "measure (size_list size)")
  show "wf (measure (size_list size))" by simp
next
  fix gs :: "raw_group list" and g gi n c p v childs ch
  assume "g \<in> set (sort_key raw_position gs)" and g: "g = RawGroup gi n c p v childs"
    and c: "childs = GroupArray ch"
  then have "g \<in> set gs" by simp
  then have "size g \<le> size_list size gs" by (rule size_list_estimation') simp
  with g c show "(ch, gs) \<in> measure (size_list size)" by simp
qed

declare sortGroups.simps [simp del]

text \<open>
  \<open>this.#sortGroups()\<close> at the root reads \<open>this.data.groups\<close> and calls \<open>sort\<close> on it: a
  \<open>TypeError\<close> when the field is missing, \<open>null\<close> or not an array.
\<close>

definition sortGroups_root :: "raw_document \<Rightarrow> js_error + group list" where
  "sortGroups_root r =
     (case raw_groups r of
        NoArray \<Rightarrow> Inl TypeError
      | NotAnArray \<Rightarrow> Inl TypeError
      | GroupArray gs \<Rightarrow> sortGroups gs)"

definition empty_configuration :: configuration_t where
  "empty_configuration =
     \<lparr>config_locale = None, config_startDate = None, config_endDate = None\<rparr>"

text \<open>
  The statements of \<open>load\<close> after the \<open>try\<close> block, on the object that the block left
  and on its groups (\<open>None\<close> when the object is \<open>{}\<close>): every missing field gets its
  default, \<open>eras\<close> the array \<open>[]\<close>.
\<close>

definition addMissingFields :: "raw_document \<Rightarrow> group list option \<Rightarrow> document" where
  "addMissingFields r g =
     \<lparr>configuration =
        (case raw_configuration r of None \<Rightarrow> empty_configuration | Some x \<Rightarrow> x),
      groups = (case g of None \<Rightarrow> [] | Some x \<Rightarrow> x),
      items = (case raw_items r of None \<Rightarrow> [] | Some x \<Rightarrow> x),
      item_categories =
        (case raw_item_categories r of None \<Rightarrow> Map.empty | Some x \<Rightarrow> x),
      eras = (case raw_eras r of None \<Rightarrow> JsArray [] | Some x \<Rightarrow> x),
      markers = (case raw_markers r of None \<Rightarrow> Map.empty | Some x \<Rightarrow> x)\<rparr>"

text \<open>
  \<open>load()\<close>. The argument is the outcome of \<open>JSON.parse(Utils.read(path))\<close>. The \<open>try\<close>
  block holds the parse and the sort; the \<open>catch\<close> replaces the data by \<open>{}\<close>, whatever
  was thrown. Then the missing fields are added and the event is dispatched.
\<close>

definition load :: "js_error + raw_document \<Rightarrow> store \<Rightarrow> store" where
  "load parsed s =
     dispatchEvent (s\<lparr>data :=
       (case parsed of
          Inl e \<Rightarrow> addMissingFields empty_object None
        | Inr r \<Rightarrow>
            (case sortGroups_root r of
               Inl e \<Rightarrow> addMissingFields empty_object None
             | Inr gs \<Rightarrow> addMissingFields r (Some gs)))\<rparr>)"

text \<open>
  \<open>save(path)\<close> hands \<open>JSON.stringify(this.data, null, 2)\<close> to \<open>Utils.download\<close>.
  \<open>stringify\<close> is the object that this text denotes, the one \<open>JSON.parse\<close> gives back:
  objects are written with their own properties, arrays with their elements only, so the
  named properties of an array are not part of the text; a \<open>Date\<close> is written as its
  ISO text, an invalid one as \<open>null\<close>.
\<close>

fun stringify_date :: "date_value \<Rightarrow> date_value" where
  "stringify_date (DateObject t) =
     (case t of None \<Rightarrow> DateNull
      | Some x \<Rightarrow> (case TimeClip x of None \<Rightarrow> DateNull | Some y \<Rightarrow> DateText (Some y)))"
| "stringify_date v = v"

text \<open>A key whose value is \<open>undefined\<close> is not written.\<close>

fun stringify_key :: "date_value option \<Rightarrow> date_value option" where
  "stringify_key None = None"
| "stringify_key (Some DateUndefined) = None"
| "stringify_key (Some v) = Some (stringify_date v)"

definition stringify_item :: "item \<Rightarrow> item" where
  "stringify_item it =
     it\<lparr>item_start := stringify_key (item_start it),
        item_end := stringify_key (item_end it)\<rparr>"

definition stringify_marker :: "marker \<Rightarrow> marker" where
  "stringify_marker m = m\<lparr>marker_date := stringify_date (marker_date m)\<rparr>"

definition stringify_era :: "era \<Rightarrow> era" where
  "stringify_era e =
     e\<lparr>era_start := stringify_date (era_start e), era_end := stringify_date (era_end e)\<rparr>"

fun stringify_coll :: "era js_coll \<Rightarrow> era js_coll" where
  "stringify_coll (JsObject ps) = JsObject (map (\<lambda>p. (fst p, stringify_era (snd p))) ps)"
| "stringify_coll (JsArray ps) = JsArray []"

fun stringify_group :: "group \<Rightarrow> raw_group" where
  "stringify_group (Group gi n c p v ch) =
     RawGroup gi n c p v (GroupArray (map stringify_group ch))"

definition stringify :: "document \<Rightarrow> raw_document" where
  "stringify d =
     \<lparr>raw_configuration = Some (configuration d),
      raw_groups = GroupArray (map stringify_group (groups d)),
      raw_items = Some (map stringify_item (items d)),
      raw_item_categories = Some (item_categories d),
      raw_eras = Some (stringify_coll (eras d)),
      raw_markers = Some (map_option stringify_marker \<circ> markers d)\<rparr>"

definition save :: "store \<Rightarrow> raw_document" where
  "save s = stringify (data s)"

section \<open>The items of the timeline widget\<close>

text \<open>
  \<open>Timeline.refresh()\<close>, as far as the item data set goes: the set is cleared, the
  items of the document are added, and the loop over \<open>Object.entries(eras)\<close> adds one
  background item for each visible era unless \<open>end.getTime() <= start.getTime()\<close>;
  \<open>console.error\<close> collects the messages. The guard \<open>json.isValid()\<close> asks for the six
  fields, which a \<open>document\<close> has by its type. The group data set and the widget options
  are not modelled.
\<close>

record timeline =
  json :: store
  ds_items :: "item list"
  console :: "string list"

definition eraItem :: "string \<Rightarrow> era \<Rightarrow> item" where
  "eraItem uuid e =
     \<lparr>item_id = Some uuid, item_group = None, item_content = Some (era_text e),
      item_className = Some uuid, item_type = Some BACKGROUND,
      item_start = Some (era_start e), item_end = Some (era_end e),
      item_description = None\<rparr>"

fun addEras :: "(string \<times> era) list \<Rightarrow> timeline \<Rightarrow> timeline" where
  "addEras [] t = t"
| "addEras ((uuid, e) # rest) t =
     (if \<not> era_visible e then addEras rest t
      else if number_le (getTime (era_end e)) (getTime (era_start e))
      then addEras rest (t\<lparr>console := console t @ [''Ignoring invalid era: '' @ uuid]\<rparr>)
      else addEras rest (t\<lparr>ds_items := ds_items t @ [eraItem uuid e]\<rparr>))"

definition refresh :: "timeline \<Rightarrow> timeline" where
  "refresh t =
     addEras (entries (eras (data (json t)))) (t\<lparr>ds_items := items (data (json t))\<rparr>)"

section \<open>Operations as data\<close>

text \<open>
  The mutating methods of the store that return a success flag, as one datatype, so
  that a property of all of them is one statement. \<open>load\<close> returns nothing and replaces
  the document; it stays apart.
\<close>

datatype operation =
    AddGroup string string
  | RemoveGroup string
  | RenameGroup string string
  | ToggleGroupVisibility string
  | AddItem "item option"
  | UpdateItem "item option"
  | RemoveItem "item option"
  | AddMarker string string date_value
  | RemoveMarker string
  | UpdateMarker string "string option" "date_value option"
  | AddEra string string date_value date_value string
  | RemoveEra string
  | UpdateEra string "string option" "date_value option" "date_value option" "string option"
  | ToggleEraVisibility string

fun run :: "operation \<Rightarrow> store \<Rightarrow> outcome \<times> store" where
  "run (AddGroup uuid nm) s = returned (addGroup uuid nm s)"
| "run (RemoveGroup i) s = returned (removeGroup i s)"
| "run (RenameGroup i nm) s = returned (renameGroup i nm s)"
| "run (ToggleGroupVisibility i) s = returned (toggleGroupVisibility i s)"
| "run (AddItem p) s = returned (addItem p s)"
| "run (UpdateItem p) s = returned (updateItem p s)"
| "run (RemoveItem p) s = returned (removeItem p s)"
| "run (AddMarker uuid nm date) s = returned (addMarker uuid nm date s)"
| "run (RemoveMarker uuid) s = returned (removeMarker uuid s)"
| "run (UpdateMarker uuid nm date) s = updateMarker uuid nm date s"
| "run (AddEra uuid txt a b color) s = returned (addEra uuid txt a b color s)"
| "run (RemoveEra uuid) s = removeEra uuid s"
| "run (UpdateEra uuid txt a b color) s = updateEra uuid txt a b color s"
| "run (ToggleEraVisibility uuid) s = toggleEraVisibility uuid s"

section \<open>Notions of the specification\<close>

text \<open>The ids of a forest, every group before its \<open>childs\<close>.\<close>

fun group_ids :: "group list \<Rightarrow> string list" where
  "group_ids [] = []"
| "group_ids (Group gi n c p v ch # rest) = gi # group_ids ch @ group_ids rest"

text \<open>
  The depth of the first group with the given id in the order of the search (0 for a
  group of the root list).
\<close>

fun depth_of :: "string \<Rightarrow> group list \<Rightarrow> nat option" where
  "depth_of i [] = None"
| "depth_of i (Group gi n c p v ch # rest) =
     (if gi = i then Some 0
      else (case depth_of i ch of
              Some k \<Rightarrow> Some (Suc k)
            | None \<Rightarrow> depth_of i rest))"

text \<open>
  The forest in which the \<open>visible\<close> value of one group, the first with the given id in
  the order of the ids, is replaced by \<open>f\<close> of it, and nothing else is touched.
\<close>

fun mapVisible :: "string \<Rightarrow> (flag \<Rightarrow> flag) \<Rightarrow> group list \<Rightarrow> group list" where
  "mapVisible i f [] = []"
| "mapVisible i f (Group gi n c p v ch # rest) =
     (if gi = i then Group gi n c p (f v) ch # rest
      else if i \<in> set (group_ids ch) then Group gi n c p v (mapVisible i f ch) # rest
      else Group gi n c p v ch # mapVisible i f rest)"

text \<open>
  The causes of failure of the amended claim on failing mutations: the target id is not
  in the forest, the list or the map; a required name is empty; the payload or its id is
  missing; the id of an addition is already there.
\<close>

fun rejected :: "operation \<Rightarrow> document \<Rightarrow> bool" where
  "rejected (AddGroup uuid nm) d = (nm = [])"
| "rejected (RemoveGroup i) d = (i \<notin> set (group_ids (groups d)))"
| "rejected (RenameGroup i nm) d = (nm = [] \<or> i \<notin> set (group_ids (groups d)))"
| "rejected (ToggleGroupVisibility i) d = (i \<notin> set (group_ids (groups d)))"
| "rejected (AddItem p) d =
     (case p of None \<Rightarrow> True
      | Some x \<Rightarrow> item_id x = None \<or> item_id x \<in> item_id ` set (items d))"
| "rejected (UpdateItem p) d =
     (case p of None \<Rightarrow> True
      | Some x \<Rightarrow> item_id x = None \<or> item_id x \<notin> item_id ` set (items d))"
| "rejected (RemoveItem p) d =
     (case p of None \<Rightarrow> True
      | Some x \<Rightarrow> item_id x = None \<or> item_id x \<notin> item_id ` set (items d))"
| "rejected (AddMarker uuid nm date) d = (uuid \<in> dom (markers d))"
| "rejected (RemoveMarker uuid) d = (uuid \<notin> dom (markers d))"
| "rejected (UpdateMarker uuid nm date) d = (uuid \<notin> dom (markers d))"
| "rejected (AddEra uuid txt a b color) d = own_key uuid (eras d)"
| "rejected (RemoveEra uuid) d = (\<not> own_key uuid (eras d))"
| "rejected (UpdateEra uuid txt a b color) d = (\<not> own_key uuid (eras d))"
| "rejected (ToggleEraVisibility uuid) d = (\<not> own_key uuid (eras d))"

text \<open>
  An operation whose uuid, if it addresses the markers or the eras, is not a name that
  the addressed object inherits.
\<close>

fun ordinary :: "operation \<Rightarrow> document \<Rightarrow> bool" where
  "ordinary (AddMarker uuid nm date) d = (inherited_name uuid = None)"
| "ordinary (RemoveMarker uuid) d = (inherited_name uuid = None)"
| "ordinary (UpdateMarker uuid nm date) d = (inherited_name uuid = None)"
| "ordinary (AddEra uuid txt a b color) d = (inherited_in (eras d) uuid = None)"
| "ordinary (RemoveEra uuid) d = (inherited_in (eras d) uuid = None)"
| "ordinary (UpdateEra uuid txt a b color) d = (inherited_in (eras d) uuid = None)"
| "ordinary (ToggleEraVisibility uuid) d = (inherited_in (eras d) uuid = None)"
| "ordinary _ d = True"

text \<open>A payload that carries only the id and a start value.\<close>

definition startOnly :: "string \<Rightarrow> date_value \<Rightarrow> item" where
  "startOnly i t =
     \<lparr>item_id = Some i, item_group = None, item_content = None, item_className = None,
      item_type = None, item_start = Some t, item_end = None, item_description = None\<rparr>"

text \<open>
  An era both of whose dates are dates; one whose end is strictly after its start; one
  whose end is not.
\<close>

definition valid_dates :: "era \<Rightarrow> bool" where
  "valid_dates e = (getTime (era_start e) \<noteq> None \<and> getTime (era_end e) \<noteq> None)"

fun number_less :: "int option \<Rightarrow> int option \<Rightarrow> bool" where
  "number_less (Some a) (Some b) = (a < b)"
| "number_less _ _ = False"

definition ends_after_start :: "era \<Rightarrow> bool" where
  "ends_after_start e = number_less (getTime (era_start e)) (getTime (era_end e))"

text \<open>
  The entries of the eras map that the loop of \<open>refresh\<close> draws, and those it reports.
\<close>

definition shown :: "string \<times> era \<Rightarrow> bool" where
  "shown p =
     (era_visible (snd p) \<and> \<not> number_le (getTime (era_end (snd p))) (getTime (era_start (snd p))))"

definition refused :: "string \<times> era \<Rightarrow> bool" where
  "refused p =
     (era_visible (snd p) \<and> number_le (getTime (era_end (snd p))) (getTime (era_start (snd p))))"

text \<open>
  The entries that \<open>refresh\<close> adds to the data set after the items of the document, and
  the messages it adds to the console.
\<close>

definition eraEntries :: "timeline \<Rightarrow> item list" where
  "eraEntries t = drop (length (items (data (json t)))) (ds_items (refresh t))"

definition newMessages :: "timeline \<Rightarrow> string list" where
  "newMessages t = drop (length (console t)) (console (refresh t))"

definition diagnostic :: "string \<Rightarrow> string" where
  "diagnostic uuid = ''Ignoring invalid era: '' @ uuid"

section \<open>A sample document\<close>

text \<open>
  A small store to run the operations on: group \<open>b\<close> is nested in group \<open>a\<close>, one
  point item uses the category \<open>red\<close>, and there is one era.
\<close>

definition ex_groups :: "group list" where
  "ex_groups =
     [Group ''a'' ''Alpha'' [] 1 (JsBool True) [Group ''b'' ''Beta'' [] 1 (JsBool True) []],
      Group ''c'' ''Gamma'' [] 2 (JsBool True) []]"

definition ex_item :: item where
  "ex_item =
     \<lparr>item_id = Some ''i1'', item_group = Some ''a'', item_content = Some ''First'',
      item_className = Some ''red'', item_type = Some ''point'',
      item_start = Some (DateText (Some 10)), item_end = None, item_description = None\<rparr>"

definition ex_era :: era where
  "ex_era = \<lparr>era_text = ''Age'', era_start = DateText (Some 20230101),
     era_end = DateText (Some 20240101), era_color = ''#cccccc'', era_visible = True\<rparr>"

definition ex_document :: document where
  "ex_document =
     \<lparr>configuration = empty_configuration, groups = ex_groups, items = [ex_item],
      item_categories = [''red'' \<mapsto> DEFAULT_STYLE], eras = JsObject [(''e1'', ex_era)],
      markers = Map.empty\<rparr>"

definition ex_store :: store where
  "ex_store = \<lparr>data = ex_document, dispatched = 0, prototypes_untouched = True\<rparr>"

text \<open>The widget on the sample store, before its first \<open>refresh\<close>.\<close>

definition ex_timeline :: timeline where
  "ex_timeline = \<lparr>json = ex_store, ds_items = [], console = []\<rparr>"

text \<open>A hidden era that ends before it starts, and the widget on a store that holds it.\<close>

definition ex_hidden_era :: era where
  "ex_hidden_era = \<lparr>era_text = ''Back'', era_start = DateText (Some 20240101),
     era_end = DateText (Some 20230101), era_color = ''#cccccc'', era_visible = False\<rparr>"

definition ex_hidden_timeline :: timeline where
  "ex_hidden_timeline =
     \<lparr>json = \<lparr>data = ex_document\<lparr>eras := JsObject [(''e9'', ex_hidden_era)]\<rparr>,
               dispatched = 0, prototypes_untouched = True\<rparr>,
      ds_items = [], console = []\<rparr>"

text \<open>
  A visible era whose start field was cleared in the edit dialog, and the widget on a
  store that holds it.
\<close>

definition ex_cleared_era :: era where
  "ex_cleared_era = \<lparr>era_text = ''Open'', era_start = EmptyText,
     era_end = DateText (Some 20230101), era_color = ''#cccccc'', era_visible = True\<rparr>"

definition ex_cleared_timeline :: timeline where
  "ex_cleared_timeline =
     \<lparr>json = \<lparr>data = ex_document\<lparr>eras := JsObject [(''e8'', ex_cleared_era)]\<rparr>,
               dispatched = 0, prototypes_untouched = True\<rparr>,
      ds_items = [], console = []\<rparr>"

text \<open>A parsed file with an item but without groups.\<close>

definition ex_raw_no_groups :: raw_document where
  "ex_raw_no_groups = empty_object\<lparr>raw_items := Some [ex_item]\<rparr>"

text \<open>A parsed file with an item and one group, which has no \<open>childs\<close>.\<close>

definition ex_raw_no_childs :: raw_document where
  "ex_raw_no_childs =
     empty_object\<lparr>raw_items := Some [ex_item],
       raw_groups := GroupArray [RawGroup ''a'' ''Alpha'' [] 1 (JsBool True) NoArray]\<rparr>"

text \<open>
  The sample store after a drag in the groups panel: \<open>fromHtml\<close> has rebuilt the forest
  from the attributes of the list, so every \<open>visible\<close> is a text.
\<close>

definition ex_dragged_store :: store where
  "ex_dragged_store =
     \<lparr>data = ex_document\<lparr>groups :=
        [Group ''a'' ''Alpha'' [] 1 (JsString ''true'')
           [Group ''b'' ''Beta'' [] 1 (JsString ''false'') []],
         Group ''c'' ''Gamma'' [] 2 (JsString ''true'') []]\<rparr>,
      dispatched = 0, prototypes_untouched = True\<rparr>"

text \<open>An item payload whose id is the empty string.\<close>

definition ex_empty_id :: item where
  "ex_empty_id = startOnly [] (DateText (Some 10))"

section \<open>Writes on an inherited name\<close>

lemma written_data [simp]: "data (written b w s) = data s"
  by (simp add: written_def)

lemma written_dispatched [simp]: "dispatched (written b w s) = dispatched s"
  by (simp add: written_def)

lemma written_untouched:
  "prototypes_untouched (written b w s) \<longleftrightarrow>
     prototypes_untouched s \<and> \<not> (b = BuiltinObject \<and> w)"
  by (simp add: written_def)

section \<open>Properties of the search in the forest\<close>

lemma depth_of_None: "depth_of i gs = None \<longleftrightarrow> i \<notin> set (group_ids gs)"
  by (induction i gs rule: depth_of.induct) (auto split: option.splits)

lemma removeGroup_in_absent:
  "i \<notin> set (group_ids gs) \<Longrightarrow> removeGroup_in i gs = (False, gs, 0)"
  by (induction i gs rule: removeGroup_in.induct) (auto split: prod.splits)

lemma removeGroup_in_present:
  "i \<in> set (group_ids gs) \<Longrightarrow> fst (removeGroup_in i gs)"
  by (induction i gs rule: removeGroup_in.induct)
     (auto split: prod.splits simp: removeGroup_in_absent)

lemma removeGroup_in_count:
  "depth_of i gs = Some k \<Longrightarrow>
   fst (removeGroup_in i gs) \<and> snd (snd (removeGroup_in i gs)) = Suc k"
  by (induction i gs arbitrary: k rule: removeGroup_in.induct)
     (auto split: prod.splits option.splits if_splits
           simp: depth_of_None removeGroup_in_absent)

lemma renameGroup_in_absent:
  "i \<notin> set (group_ids gs) \<Longrightarrow> renameGroup_in i nm gs = (False, gs, 0)"
  by (induction i nm gs rule: renameGroup_in.induct) (auto split: prod.splits)

lemma renameGroup_in_present:
  "i \<in> set (group_ids gs) \<Longrightarrow> fst (renameGroup_in i nm gs)"
  by (induction i nm gs rule: renameGroup_in.induct)
     (auto split: prod.splits simp: renameGroup_in_absent)

lemma renameGroup_in_count:
  "depth_of i gs = Some k \<Longrightarrow>
   fst (renameGroup_in i nm gs) \<and> snd (snd (renameGroup_in i nm gs)) = Suc k"
  by (induction i nm gs arbitrary: k rule: renameGroup_in.induct)
     (auto split: prod.splits option.splits if_splits
           simp: depth_of_None renameGroup_in_absent)

lemma toggleGroupVisibility_in_absent:
  "i \<notin> set (group_ids gs) \<Longrightarrow> toggleGroupVisibility_in i gs = (False, gs, 0)"
  by (induction i gs rule: toggleGroupVisibility_in.induct) (auto split: prod.splits)

lemma toggleGroupVisibility_in_present:
  "i \<in> set (group_ids gs) \<Longrightarrow> fst (toggleGroupVisibility_in i gs)"
  by (induction i gs rule: toggleGroupVisibility_in.induct)
     (auto split: prod.splits simp: toggleGroupVisibility_in_absent)

lemma toggleGroupVisibility_in_count:
  "depth_of i gs = Some k \<Longrightarrow>
   fst (toggleGroupVisibility_in i gs) \<and> snd (snd (toggleGroupVisibility_in i gs)) = Suc k"
  by (induction i gs arbitrary: k rule: toggleGroupVisibility_in.induct)
     (auto split: prod.splits option.splits if_splits
           simp: depth_of_None toggleGroupVisibility_in_absent)

lemma mapVisible_ids: "group_ids (mapVisible i f gs) = group_ids gs"
  by (induction i f gs rule: mapVisible.induct) auto

lemma mapVisible_twice:
  "mapVisible i g (mapVisible i f gs) = mapVisible i (\<lambda>v. g (f v)) gs"
  by (induction i f gs rule: mapVisible.induct) (auto simp: mapVisible_ids)

lemma mapVisible_absent: "i \<notin> set (group_ids gs) \<Longrightarrow> mapVisible i f gs = gs"
  by (induction i f gs rule: mapVisible.induct) auto

lemma toggleGroupVisibility_in_groups:
  "fst (snd (toggleGroupVisibility_in i gs)) = mapVisible i (\<lambda>v. JsBool (\<not> truthy v)) gs"
proof (induction i gs rule: toggleGroupVisibility_in.induct)
  case (1 i)
  then show ?case by simp
next
  case (2 i gi n c p v ch rest)
  show ?case
  proof (cases "gi = i")
    case True
    then show ?thesis by simp
  next
    case ne: False
    show ?thesis
    proof (cases "i \<in> set (group_ids ch)")
      case True
      then have "fst (toggleGroupVisibility_in i ch)"
        by (rule toggleGroupVisibility_in_present)
      with "2.IH"(1)[OF ne] ne True show ?thesis
        by (cases "toggleGroupVisibility_in i ch") auto
    next
      case False
      then have c: "toggleGroupVisibility_in i ch = (False, ch, 0)"
        by (rule toggleGroupVisibility_in_absent)
      from "2.IH"(2)[OF ne c[symmetric] refl] ne False c show ?thesis
        by (cases "toggleGroupVisibility_in i rest") auto
    qed
  qed
qed

section \<open>When an operation fails\<close>

lemma hasItemId_iff: "hasItemId i its \<longleftrightarrow> i \<in> item_id ` set its"
  by (induction its) auto

lemma updateItem_in_None: "updateItem_in d its = None \<longleftrightarrow> item_id d \<notin> item_id ` set its"
  by (induction its) auto

lemma removeItem_in_None: "removeItem_in d its = None \<longleftrightarrow> item_id d \<notin> item_id ` set its"
  by (induction its) auto

lemma get_prop_None: "get_prop c k = None \<longleftrightarrow> \<not> own_key k c"
  by (simp add: get_prop_def own_key_def map_of_eq_None_iff)

lemma has_key_ordinary: "inherited_in c k = None \<Longrightarrow> has_key k c \<longleftrightarrow> own_key k c"
  by (simp add: has_key_def)

lemma with_groups_fst: "fst (with_groups s r) = fst r"
  by (cases r) (simp add: with_groups_def)

lemma with_groups_same: "with_groups s (False, groups (data s), 0) = (False, s)"
  by (simp add: with_groups_def)

lemma removeGroup_in_fst: "fst (removeGroup_in i gs) \<longleftrightarrow> i \<in> set (group_ids gs)"
  using removeGroup_in_present[of i gs] removeGroup_in_absent[of i gs]
  by (cases "i \<in> set (group_ids gs)") simp_all

lemma renameGroup_in_fst: "fst (renameGroup_in i nm gs) \<longleftrightarrow> i \<in> set (group_ids gs)"
  using renameGroup_in_present[of i gs nm] renameGroup_in_absent[of i gs nm]
  by (cases "i \<in> set (group_ids gs)") simp_all

lemma toggleGroupVisibility_in_fst:
  "fst (toggleGroupVisibility_in i gs) \<longleftrightarrow> i \<in> set (group_ids gs)"
  using toggleGroupVisibility_in_present[of i gs] toggleGroupVisibility_in_absent[of i gs]
  by (cases "i \<in> set (group_ids gs)") simp_all

lemma removeGroup_rejected:
  "fst (removeGroup i s) \<longleftrightarrow> i \<in> set (group_ids (groups (data s)))"
  by (simp add: removeGroup_def with_groups_fst removeGroup_in_fst)

lemma removeGroup_failed:
  assumes "\<not> fst (removeGroup i s)"
  shows "removeGroup i s = (False, s)"
proof -
  from assms have "i \<notin> set (group_ids (groups (data s)))"
    by (simp add: removeGroup_rejected)
  then show ?thesis
    by (simp add: removeGroup_def removeGroup_in_absent with_groups_same)
qed

lemma renameGroup_rejected:
  "fst (renameGroup i nm s) \<longleftrightarrow> nm \<noteq> [] \<and> i \<in> set (group_ids (groups (data s)))"
  by (simp add: renameGroup_def with_groups_fst renameGroup_in_fst)

lemma renameGroup_failed:
  assumes "\<not> fst (renameGroup i nm s)"
  shows "renameGroup i nm s = (False, s)"
proof (cases "nm = []")
  case True
  then show ?thesis by (simp add: renameGroup_def)
next
  case False
  with assms have "i \<notin> set (group_ids (groups (data s)))"
    by (simp add: renameGroup_rejected)
  then show ?thesis
    by (simp add: renameGroup_def renameGroup_in_absent with_groups_same)
qed

lemma toggleGroupVisibility_rejected:
  "fst (toggleGroupVisibility i s) \<longleftrightarrow> i \<in> set (group_ids (groups (data s)))"
  by (simp add: toggleGroupVisibility_def with_groups_fst toggleGroupVisibility_in_fst)

lemma toggleGroupVisibility_failed:
  assumes "\<not> fst (toggleGroupVisibility i s)"
  shows "toggleGroupVisibility i s = (False, s)"
proof -
  from assms have "i \<notin> set (group_ids (groups (data s)))"
    by (simp add: toggleGroupVisibility_rejected)
  then show ?thesis
    by (simp add: toggleGroupVisibility_def toggleGroupVisibility_in_absent with_groups_same)
qed

lemma updateItem_rejected:
  "fst (updateItem (Some d) s) \<longleftrightarrow>
   item_id d \<noteq> None \<and> item_id d \<in> item_id ` set (items (data s))"
proof (cases "updateItem_in d (items (data s))")
  case None
  then show ?thesis
    using updateItem_in_None[of d "items (data s)"] by (simp add: updateItem_def)
next
  case (Some its)
  then show ?thesis
    using updateItem_in_None[of d "items (data s)"] by (simp add: updateItem_def)
qed

lemma removeItem_rejected:
  "fst (removeItem (Some d) s) \<longleftrightarrow>
   item_id d \<noteq> None \<and> item_id d \<in> item_id ` set (items (data s))"
proof (cases "removeItem_in d (items (data s))")
  case None
  then show ?thesis
    using removeItem_in_None[of d "items (data s)"] by (simp add: removeItem_def)
next
  case (Some its)
  then show ?thesis
    using removeItem_in_None[of d "items (data s)"] by (simp add: removeItem_def)
qed

lemma run_rejected:
  assumes "ordinary op (data s)"
  shows "rejected op (data s) \<longleftrightarrow> fst (run op s) \<noteq> Returned True"
proof (cases op)
  case (RemoveGroup i) then show ?thesis by (simp add: returned_def removeGroup_rejected)
next
  case (RenameGroup i nm) then show ?thesis
    by (auto simp add: returned_def renameGroup_rejected)
next
  case (ToggleGroupVisibility i) then show ?thesis
    by (simp add: returned_def toggleGroupVisibility_rejected)
next
  case (AddGroup u nm) then show ?thesis by (simp add: returned_def addGroup_def)
next
  case (AddItem p) then show ?thesis
    by (auto simp: returned_def addItem_def hasItemId_iff split: option.splits)
next
  case (UpdateItem p) then show ?thesis
    by (cases p) (simp_all add: returned_def updateItem_rejected, simp add: updateItem_def)
next
  case (RemoveItem p) then show ?thesis
    by (cases p) (simp_all add: returned_def removeItem_rejected, simp add: removeItem_def)
next
  case (AddMarker u n t) with assms show ?thesis by (simp add: returned_def addMarker_def)
next
  case (RemoveMarker u) with assms show ?thesis by (simp add: returned_def removeMarker_def)
next
  case (UpdateMarker u n t) with assms show ?thesis
    by (auto simp: updateMarker_def split: option.splits)
next
  case (AddEra u x a b c) with assms show ?thesis
    by (simp add: returned_def addEra_def has_key_ordinary)
next
  case (RemoveEra u) with assms show ?thesis
    by (simp add: removeEra_def has_key_ordinary)
next
  case (UpdateEra u x a b c) with assms show ?thesis
    using get_prop_None[of "eras (data s)" u]
    by (auto simp: updateEra_def split: option.splits)
next
  case (ToggleEraVisibility u) with assms show ?thesis
    using get_prop_None[of "eras (data s)" u]
    by (auto simp: toggleEraVisibility_def split: option.splits)
qed

lemma run_failed:
  assumes "ordinary op (data s)" and "fst (run op s) \<noteq> Returned True"
  shows "run op s = (Returned False, s)"
proof (cases op)
  case (RemoveGroup i) with assms show ?thesis
    using removeGroup_failed[of i s] by (simp add: returned_def)
next
  case (RenameGroup i nm) with assms show ?thesis
    using renameGroup_failed[of i nm s] by (simp add: returned_def)
next
  case (ToggleGroupVisibility i) with assms show ?thesis
    using toggleGroupVisibility_failed[of i s] by (simp add: returned_def)
next
  case (AddGroup u nm) with assms show ?thesis
    by (simp add: returned_def addGroup_def split: if_splits)
next
  case (AddItem p) with assms show ?thesis
    by (auto simp: returned_def addItem_def split: option.splits if_splits)
next
  case (UpdateItem p) with assms show ?thesis
    by (auto simp: returned_def updateItem_def split: option.splits if_splits)
next
  case (RemoveItem p) with assms show ?thesis
    by (auto simp: returned_def removeItem_def split: option.splits if_splits)
next
  case (AddMarker u n t) with assms show ?thesis
    by (simp add: returned_def addMarker_def split: if_splits)
next
  case (RemoveMarker u) with assms show ?thesis
    by (simp add: returned_def removeMarker_def split: if_splits)
next
  case (UpdateMarker u n t) with assms show ?thesis
    by (auto simp: updateMarker_def split: option.splits)
next
  case (AddEra u x a b c) with assms show ?thesis
    by (simp add: returned_def addEra_def split: if_splits)
next
  case (RemoveEra u) with assms show ?thesis
    by (simp add: removeEra_def has_key_ordinary split: if_splits)
next
  case (UpdateEra u x a b c) with assms show ?thesis
    by (auto simp: updateEra_def split: option.splits)
next
  case (ToggleEraVisibility u) with assms show ?thesis
    by (auto simp: toggleEraVisibility_def split: option.splits)
qed

lemma ex_group_ids: "group_ids (groups (data ex_store)) = [''a'', ''b'', ''c'']"
  by (simp add: ex_store_def ex_document_def ex_groups_def)

text \<open>
  Claim C2, amended. Take a store whose engine still has the prototypes it started
  with, and an operation whose uuid, if it addresses the markers or the eras, is not a
  name that the object inherits. It fails exactly on these causes: the
  target id is absent from the forest, the list or the map; the name is empty
  (\<open>addGroup\<close>, \<open>renameGroup\<close>); the payload or its id is missing (items); the id of an
  addition is already present (\<open>addItem\<close>, \<open>addMarker\<close>, \<open>addEra\<close>). When it fails it
  returns false, throws nothing and leaves the store as it was: the document is equal
  to the one before the call, and no event is dispatched. In particular \<open>removeGroup\<close>,
  \<open>renameGroup\<close> and \<open>toggleGroupVisibility\<close> on an id that is not in the forest return
  false and leave the forest unchanged. An id that is present but empty is an id like
  any other. Nothing is said here about a uuid that names an inherited property.
\<close>

theorem failed_mutation_leaves_document:
  assumes "prototypes_untouched s" and "ordinary op (data s)"
  shows "(rejected op (data s) \<longleftrightarrow> fst (run op s) \<noteq> Returned True) \<and>
         (fst (run op s) \<noteq> Returned True \<longrightarrow> run op s = (Returned False, s))"
  using run_rejected[OF assms(2)] run_failed[OF assms(2)] by blast

theorem failed_mutation_leaves_document_witness:
  "prototypes_untouched ex_store \<and> ordinary (RemoveEra ''zz'') (data ex_store) \<and>
   rejected (RemoveEra ''zz'') (data ex_store) \<and>
   run (RemoveEra ''zz'') ex_store = (Returned False, ex_store)"
proof -
  have h: "ordinary (RemoveEra ''zz'') (data ex_store)"
    by (simp add: ex_store_def ex_document_def inherited_name_def Object_prototype_def)
  have r: "rejected (RemoveEra ''zz'') (data ex_store)"
    by (simp add: ex_store_def ex_document_def own_key_def)
  have u: "prototypes_untouched ex_store" by (simp add: ex_store_def)
  from u h r failed_mutation_leaves_document[OF u h] show ?thesis by simp
qed

text \<open>
  The claim as stated fails in two places. It counts an empty id among the causes of
  failure, but \<open>addItem\<close> tests only for the key and stores an item whose id is \<open>''\<close>.
  And on a marker uuid that is absent from the map but inherited, such as
  \<open>constructor\<close>, \<open>updateMarker\<close> with a name throws a \<open>TypeError\<close> and \<open>removeMarker\<close>
  returns true.
\<close>

theorem empty_id_accepted_and_inherited_name_throws:
  "item_id ex_empty_id = Some [] \<and>
   fst (run (AddItem (Some ex_empty_id)) ex_store) = Returned True \<and>
   items (data (snd (run (AddItem (Some ex_empty_id)) ex_store))) = [ex_item, ex_empty_id] \<and>
   ''constructor'' \<notin> dom (markers (data ex_store)) \<and>
   run (UpdateMarker ''constructor'' (Some ''X'') None) ex_store = (Threw TypeError, ex_store) \<and>
   fst (run (RemoveMarker ''constructor'') ex_store) = Returned True"
  by (simp add: ex_empty_id_def startOnly_def returned_def addItem_def ex_store_def
        ex_document_def ex_item_def dispatchEvent_def updateMarker_def removeMarker_def
        inherited_name_def Object_prototype_def truthy_string_def)

section \<open>Events dispatched by the mutations\<close>

text \<open>
  \<open>addGroup\<close>, the item operations and \<open>load\<close> dispatch one event. The three searches
  dispatch one event in the call that finds the group and one more in every enclosing
  call, which sees a true result and dispatches again: a group at depth \<open>k\<close> costs
  \<open>k + 1\<close> events.
\<close>

lemma with_groups_snd:
  "snd (with_groups s (b, gs, k)) = s\<lparr>data := (data s)\<lparr>groups := gs\<rparr>, dispatched := dispatched s + k\<rparr>"
  by (simp add: with_groups_def)

lemma removeGroup_dispatched:
  assumes "depth_of i (groups (data s)) = Some k"
  shows "fst (removeGroup i s) \<and> dispatched (snd (removeGroup i s)) = dispatched s + Suc k"
  using removeGroup_in_count[OF assms]
  by (cases "removeGroup_in i (groups (data s))") (simp add: removeGroup_def with_groups_def)

lemma renameGroup_dispatched:
  assumes "depth_of i (groups (data s)) = Some k" and "nm \<noteq> []"
  shows "fst (renameGroup i nm s) \<and> dispatched (snd (renameGroup i nm s)) = dispatched s + Suc k"
  using removeGroup_in_count renameGroup_in_count[OF assms(1), of nm] assms(2)
  by (cases "renameGroup_in i nm (groups (data s))") (simp add: renameGroup_def with_groups_def)

lemma toggleGroupVisibility_dispatched:
  assumes "depth_of i (groups (data s)) = Some k"
  shows "fst (toggleGroupVisibility i s) \<and>
         dispatched (snd (toggleGroupVisibility i s)) = dispatched s + Suc k"
  using toggleGroupVisibility_in_count[OF assms]
  by (cases "toggleGroupVisibility_in i (groups (data s))")
     (simp add: toggleGroupVisibility_def with_groups_def)

lemma flat_mutation_dispatches_once:
  "fst (addGroup u nm s) \<longrightarrow> dispatched (snd (addGroup u nm s)) = Suc (dispatched s)"
  "fst (addItem p s) \<longrightarrow> dispatched (snd (addItem p s)) = Suc (dispatched s)"
  "fst (updateItem p s) \<longrightarrow> dispatched (snd (updateItem p s)) = Suc (dispatched s)"
  "fst (removeItem p s) \<longrightarrow> dispatched (snd (removeItem p s)) = Suc (dispatched s)"
  "dispatched (load parsed s) = Suc (dispatched s)"
  by (auto simp: addGroup_def addItem_def updateItem_def removeItem_def load_def
        dispatchEvent_def Let_def split: option.splits)

lemma ex_depth_b: "depth_of ''b'' (groups (data ex_store)) = Some 1"
  by (simp add: ex_store_def ex_document_def ex_groups_def)

text \<open>
  Claim C1, on the code. The claim asks for exactly one event per successful mutation,
  also for a group nested at any depth. On the sample store, where group \<open>b\<close> is a child
  of group \<open>a\<close>, each of \<open>removeGroup\<close>, \<open>renameGroup\<close> and \<open>toggleGroupVisibility\<close>
  succeeds on \<open>b\<close> and dispatches two events.
\<close>

theorem nested_group_mutation_dispatches_twice:
  "fst (removeGroup ''b'' ex_store) \<and>
   dispatched (snd (removeGroup ''b'' ex_store)) = dispatched ex_store + 2 \<and>
   fst (renameGroup ''b'' ''Bravo'' ex_store) \<and>
   dispatched (snd (renameGroup ''b'' ''Bravo'' ex_store)) = dispatched ex_store + 2 \<and>
   fst (toggleGroupVisibility ''b'' ex_store) \<and>
   dispatched (snd (toggleGroupVisibility ''b'' ex_store)) = dispatched ex_store + 2"
  by (simp add: removeGroup_def renameGroup_def toggleGroupVisibility_def with_groups_def
        ex_store_def ex_document_def ex_groups_def)

section \<open>Toggling a group twice\<close>

text \<open>
  What two calls in a row do, on every forest that has the id: both return true; the
  first replaces the \<open>visible\<close> value of the first group with that id by the negation of
  its truth value, the second by that truth value itself, as a boolean; no other group
  and no other field is written. A boolean flag is back where it was; a text is not.
\<close>

lemma toggleGroupVisibility_twice:
  assumes "i \<in> set (group_ids (groups (data s)))"
  shows "fst (toggleGroupVisibility i s) \<and>
         data (snd (toggleGroupVisibility i s)) =
           (data s)\<lparr>groups := mapVisible i (\<lambda>v. JsBool (\<not> truthy v)) (groups (data s))\<rparr> \<and>
         fst (toggleGroupVisibility i (snd (toggleGroupVisibility i s))) \<and>
         data (snd (toggleGroupVisibility i (snd (toggleGroupVisibility i s)))) =
           (data s)\<lparr>groups := mapVisible i (\<lambda>v. JsBool (truthy v)) (groups (data s))\<rparr>"
proof -
  let ?s1 = "snd (toggleGroupVisibility i s)"
  have one: "data ?s1 =
      (data s)\<lparr>groups := mapVisible i (\<lambda>v. JsBool (\<not> truthy v)) (groups (data s))\<rparr>"
    using toggleGroupVisibility_in_groups[of i "groups (data s)"]
    by (cases "toggleGroupVisibility_in i (groups (data s))")
       (simp add: toggleGroupVisibility_def with_groups_def)
  have f1: "fst (toggleGroupVisibility i s)"
    using assms by (simp add: toggleGroupVisibility_rejected)
  have ids: "i \<in> set (group_ids (groups (data ?s1)))"
    using assms by (simp add: one mapVisible_ids)
  have f2: "fst (toggleGroupVisibility i ?s1)"
    using ids by (simp add: toggleGroupVisibility_rejected)
  have two: "data (snd (toggleGroupVisibility i ?s1)) =
      (data ?s1)\<lparr>groups := mapVisible i (\<lambda>v. JsBool (\<not> truthy v)) (groups (data ?s1))\<rparr>"
    using toggleGroupVisibility_in_groups[of i "groups (data ?s1)"]
    by (cases "toggleGroupVisibility_in i (groups (data ?s1))")
       (simp add: toggleGroupVisibility_def with_groups_def)
  from f1 one f2 two show ?thesis
    by (simp add: mapVisible_twice)
qed

text \<open>
  Claim C9, on the code. The claim asks that two calls of \<open>toggleGroupVisibility\<close> give
  back the document. After a drag in the groups panel every \<open>visible\<close> is a text. On the
  sample store in that state, two calls on group \<open>b\<close> both return true and leave
  \<open>visible\<close> at the boolean \<open>true\<close>, where it was the text \<open>'false'\<close>: the forest is not
  the one before the calls.
\<close>

theorem two_toggles_after_drag:
  "''b'' \<in> set (group_ids (groups (data ex_dragged_store))) \<and>
   fst (toggleGroupVisibility ''b'' ex_dragged_store) \<and>
   fst (toggleGroupVisibility ''b'' (snd (toggleGroupVisibility ''b'' ex_dragged_store))) \<and>
   groups (data (snd (toggleGroupVisibility ''b''
       (snd (toggleGroupVisibility ''b'' ex_dragged_store))))) =
     [Group ''a'' ''Alpha'' [] 1 (JsString ''true'')
        [Group ''b'' ''Beta'' [] 1 (JsBool True) []],
      Group ''c'' ''Gamma'' [] 2 (JsString ''true'') []] \<and>
   groups (data (snd (toggleGroupVisibility ''b''
       (snd (toggleGroupVisibility ''b'' ex_dragged_store))))) \<noteq>
     groups (data ex_dragged_store)"
  by (simp add: toggleGroupVisibility_def with_groups_def ex_dragged_store_def)

section \<open>Markers\<close>

text \<open>
  Claim C8. After a successful \<open>addMarker(uuid, name, t0)\<close>, a second \<open>addMarker\<close> with
  the same uuid and other values returns false and leaves the store as it is, so the
  marker keeps the first name and date (the scenario has uuid \<open>m1\<close>, names \<open>Launch\<close> and
  \<open>Other\<close>). No marker operation dispatches an event, whether it succeeds or not.
\<close>

theorem second_addMarker_rejected:
  "(fst (addMarker uuid nm t0 s) \<longrightarrow>
      addMarker uuid nm' t1 (snd (addMarker uuid nm t0 s)) =
        (False, snd (addMarker uuid nm t0 s)) \<and>
      markers (data (snd (addMarker uuid nm t0 s))) uuid =
        Some \<lparr>marker_name = nm, marker_date = t0\<rparr>) \<and>
   dispatched (snd (addMarker uuid nm t0 s)) = dispatched s \<and>
   dispatched (snd (removeMarker uuid s)) = dispatched s \<and>
   dispatched (snd (updateMarker uuid nmo dateo s)) = dispatched s"
  by (auto simp: addMarker_def removeMarker_def updateMarker_def split: option.splits)

theorem second_addMarker_rejected_witness:
  "fst (addMarker ''m1'' ''Launch'' (DateObject (Some 5)) ex_store) \<and>
   addMarker ''m1'' ''Other'' (DateObject (Some 9)) (snd (addMarker ''m1'' ''Launch'' (DateObject (Some 5)) ex_store)) =
     (False, snd (addMarker ''m1'' ''Launch'' (DateObject (Some 5)) ex_store)) \<and>
   markers (data (snd (addMarker ''m1'' ''Launch'' (DateObject (Some 5)) ex_store))) ''m1'' =
     Some \<lparr>marker_name = ''Launch'', marker_date = DateObject (Some 5)\<rparr>"
proof -
  have h: "fst (addMarker ''m1'' ''Launch'' (DateObject (Some 5)) ex_store)"
    by (simp add: addMarker_def ex_store_def ex_document_def inherited_name_def
          Object_prototype_def)
  from h second_addMarker_rejected[of "''m1''" "''Launch''" "DateObject (Some 5)" ex_store
      "''Other''" "DateObject (Some 9)"]
  show ?thesis by simp
qed

section \<open>Adding an era\<close>

lemma entries_with_entries: "entries (with_entries c ps) = ps"
  by (cases c) simp_all

lemma map_of_assign: "map_of (assign k v ps) k' = (if k' = k then Some v else map_of ps k')"
  by (induction ps) auto

lemma get_prop_set_prop:
  "get_prop (set_prop k v c) k' = (if k' = k then Some v else get_prop c k')"
  by (simp add: get_prop_def set_prop_def entries_with_entries map_of_assign)

lemma addEra_ordinary:
  assumes "\<not> own_key uuid (eras (data s))" and "inherited_in (eras (data s)) uuid = None"
  shows "fst (addEra uuid txt startDate endDate color s) \<and>
         get_prop (eras (data (snd (addEra uuid txt startDate endDate color s)))) uuid =
           Some \<lparr>era_text = txt, era_start = startDate, era_end = endDate,
                 era_color = color, era_visible = True\<rparr>"
  using assms by (simp add: addEra_def has_key_def get_prop_set_prop)


section \<open>Partial update of an item\<close>

lemma updateItem_in_found:
  assumes "item_id it = item_id d" and "\<forall>x\<in>set pre. item_id x \<noteq> item_id d"
  shows "updateItem_in d (pre @ it # post) = Some (pre @ assignFields d it # post)"
  using assms by (induction pre) auto

lemma assignFields_startOnly: "assignFields (startOnly i t) it = it\<lparr>item_start := Some t\<rparr>"
  by (simp add: assignFields_def startOnly_def)

text \<open>
  Claim C5. Let the items list hold an item with id \<open>i\<close> (the scenario has \<open>i1\<close>), \<open>it\<close>
  being the first one. For a payload with only the id and a start value, \<open>updateItem\<close>
  returns true and the store differs in one place: the start of \<open>it\<close> is the new value;
  the other fields of \<open>it\<close>, the other items and the categories are as before. For any
  payload with that id, the item takes exactly the fields that the payload has and keeps
  the others. When no item has the id of the payload, \<open>updateItem\<close> returns false and
  changes nothing.
\<close>

theorem updateItem_partial:
  assumes "items (data s) = pre @ it # post"
    and "item_id it = Some i"
    and "\<forall>x\<in>set pre. item_id x \<noteq> Some i"
  shows "updateItem (Some (startOnly i t)) s =
           (True, dispatchEvent (s\<lparr>data := (data s)
              \<lparr>items := pre @ it\<lparr>item_start := Some t\<rparr> # post\<rparr>\<rparr>)) \<and>
         (item_id d = Some i \<longrightarrow>
            fst (updateItem (Some d) s) \<and>
            items (data (snd (updateItem (Some d) s))) = pre @ assignFields d it # post \<and>
            item_id (assignFields d it) = item_id it \<and>
            item_group (assignFields d it) =
              (case item_group d of Some v \<Rightarrow> Some v | None \<Rightarrow> item_group it) \<and>
            item_content (assignFields d it) =
              (case item_content d of Some v \<Rightarrow> Some v | None \<Rightarrow> item_content it) \<and>
            item_className (assignFields d it) =
              (case item_className d of Some v \<Rightarrow> Some v | None \<Rightarrow> item_className it) \<and>
            item_type (assignFields d it) =
              (case item_type d of Some v \<Rightarrow> Some v | None \<Rightarrow> item_type it) \<and>
            item_start (assignFields d it) =
              (case item_start d of Some v \<Rightarrow> Some v | None \<Rightarrow> item_start it) \<and>
            item_end (assignFields d it) =
              (case item_end d of Some v \<Rightarrow> Some v | None \<Rightarrow> item_end it) \<and>
            item_description (assignFields d it) =
              (case item_description d of Some v \<Rightarrow> Some v | None \<Rightarrow> item_description it)) \<and>
         (item_id d' \<notin> item_id ` set (items (data s)) \<longrightarrow>
            updateItem (Some d') s = (False, s))"
proof -
  have found: "updateItem_in x (items (data s)) = Some (pre @ assignFields x it # post)"
    if "item_id x = Some i" for x
    using that assms by (simp add: updateItem_in_found)
  have one: "updateItem (Some (startOnly i t)) s =
           (True, dispatchEvent (s\<lparr>data := (data s)
              \<lparr>items := pre @ it\<lparr>item_start := Some t\<rparr> # post\<rparr>\<rparr>))"
    using found[of "startOnly i t"]
    by (simp add: updateItem_def assignFields_startOnly) (simp add: startOnly_def)
  have two: "fst (updateItem (Some d) s) \<and>
            items (data (snd (updateItem (Some d) s))) = pre @ assignFields d it # post"
    if "item_id d = Some i"
    using found[OF that] that by (simp add: updateItem_def dispatchEvent_def)
  have fields: "item_id (assignFields d it) = item_id it \<and>
            item_group (assignFields d it) =
              (case item_group d of Some v \<Rightarrow> Some v | None \<Rightarrow> item_group it) \<and>
            item_content (assignFields d it) =
              (case item_content d of Some v \<Rightarrow> Some v | None \<Rightarrow> item_content it) \<and>
            item_className (assignFields d it) =
              (case item_className d of Some v \<Rightarrow> Some v | None \<Rightarrow> item_className it) \<and>
            item_type (assignFields d it) =
              (case item_type d of Some v \<Rightarrow> Some v | None \<Rightarrow> item_type it) \<and>
            item_start (assignFields d it) =
              (case item_start d of Some v \<Rightarrow> Some v | None \<Rightarrow> item_start it) \<and>
            item_end (assignFields d it) =
              (case item_end d of Some v \<Rightarrow> Some v | None \<Rightarrow> item_end it) \<and>
            item_description (assignFields d it) =
              (case item_description d of Some v \<Rightarrow> Some v | None \<Rightarrow> item_description it)"
    by (simp add: assignFields_def split: option.splits)
  have three: "updateItem (Some d') s = (False, s)"
    if "item_id d' \<notin> item_id ` set (items (data s))"
    using that updateItem_in_None[of d' "items (data s)"] by (simp add: updateItem_def)
  from one two fields three show ?thesis by blast
qed

theorem updateItem_partial_witness:
  "items (data ex_store) = [] @ ex_item # [] \<and> item_id ex_item = Some ''i1'' \<and>
   updateItem (Some (startOnly ''i1'' (DateObject (Some 42)))) ex_store =
     (True, dispatchEvent (ex_store\<lparr>data := (data ex_store)
        \<lparr>items := [ex_item\<lparr>item_start := Some (DateObject (Some 42))\<rparr>]\<rparr>\<rparr>)) \<and>
   item_content (ex_item\<lparr>item_start := Some (DateObject (Some 42))\<rparr>) = Some ''First''"
proof -
  have a: "items (data ex_store) = [] @ ex_item # []"
    by (simp add: ex_store_def ex_document_def)
  have b: "item_id ex_item = Some ''i1''" by (simp add: ex_item_def)
  have c: "\<forall>x\<in>set []. item_id x \<noteq> Some ''i1''" by simp
  from a b updateItem_partial[OF a b c, of "DateObject (Some 42)"] show ?thesis
    by (simp add: ex_item_def)
qed

section \<open>Categories\<close>

lemma ensureCategory_new:
  "c \<notin> dom cats \<Longrightarrow> inherited_name c = None \<Longrightarrow>
   ensureCategory c cats = cats(c \<mapsto> DEFAULT_STYLE)"
  by (simp add: ensureCategory_def)

lemma ensureCategory_old: "c \<in> dom cats \<Longrightarrow> ensureCategory c cats = cats"
  by (simp add: ensureCategory_def)

lemma ensureCategory_le: "cats \<subseteq>\<^sub>m ensureCategory c cats"
  by (auto simp: ensureCategory_def map_le_def)

lemma with_groups_categories:
  "item_categories (data (snd (with_groups s r))) = item_categories (data s)"
  by (cases r) (simp add: with_groups_def)

lemma addItem_categories:
  "item_categories (data (snd (addItem p s))) =
     (if fst (addItem p s)
      then (case item_className (the p) of
              None \<Rightarrow> item_categories (data s)
            | Some c \<Rightarrow> ensureCategory c (item_categories (data s)))
      else item_categories (data s))"
  by (simp add: addItem_def dispatchEvent_def split: option.splits)

lemma updateItem_categories:
  "item_categories (data (snd (updateItem p s))) =
     (if fst (updateItem p s)
      then (case item_className (the p) of
              None \<Rightarrow> item_categories (data s)
            | Some c \<Rightarrow> ensureCategory c (item_categories (data s)))
      else item_categories (data s))"
  by (simp add: updateItem_def dispatchEvent_def split: option.splits)

lemma run_categories_le:
  "item_categories (data s) \<subseteq>\<^sub>m item_categories (data (snd (run op s)))"
proof (cases op)
  case (AddItem p)
  then show ?thesis
    by (simp add: returned_def addItem_categories ensureCategory_le split: option.splits)
next
  case (UpdateItem p)
  then show ?thesis
    by (simp add: returned_def updateItem_categories ensureCategory_le split: option.splits)
qed (simp_all add: returned_def addGroup_def removeGroup_def renameGroup_def
      toggleGroupVisibility_def with_groups_categories removeItem_def addMarker_def
      removeMarker_def updateMarker_def addEra_def removeEra_def updateEra_def
      toggleEraVisibility_def dispatchEvent_def split: option.splits)

text \<open>
  Claim C7, amended. For a payload whose \<open>className\<close> is not a key of
  \<open>item_categories\<close> and not a name that every object inherits (the prototypes being
  those the engine started with), a successful \<open>addItem\<close> or \<open>updateItem\<close> adds exactly
  one entry, under that name, with the default style.
  When the name is already a key, neither call adds or overwrites anything. Every
  operation of the store other than \<open>load\<close> leaves each entry in place, so between two
  loads the set of keys only grows. \<open>load\<close> replaces the whole document by the stored
  one, and with it the categories. Nothing is said here about a \<open>className\<close> that names
  an inherited property.
\<close>

theorem category_created_once:
  "(prototypes_untouched s \<and> item_className d = Some c \<and>
    c \<notin> dom (item_categories (data s)) \<and> inherited_name c = None \<longrightarrow>
      (fst (addItem (Some d) s) \<longrightarrow>
         item_categories (data (snd (addItem (Some d) s))) =
           (item_categories (data s))(c \<mapsto> DEFAULT_STYLE)) \<and>
      (fst (updateItem (Some d) s) \<longrightarrow>
         item_categories (data (snd (updateItem (Some d) s))) =
           (item_categories (data s))(c \<mapsto> DEFAULT_STYLE))) \<and>
   (item_className d = Some c \<and> c \<in> dom (item_categories (data s)) \<longrightarrow>
      item_categories (data (snd (addItem (Some d) s))) = item_categories (data s) \<and>
      item_categories (data (snd (updateItem (Some d) s))) = item_categories (data s)) \<and>
   item_categories (data s) \<subseteq>\<^sub>m item_categories (data (snd (run op s))) \<and>
   dom (item_categories (data s)) \<subseteq> dom (item_categories (data (snd (run op s))))"
  using run_categories_le[of s op] map_le_implies_dom_le[OF run_categories_le[of s op]]
  by (simp add: addItem_categories updateItem_categories ensureCategory_new ensureCategory_old)

theorem category_created_once_witness:
  "item_className (startOnly ''i2'' DateNull\<lparr>item_className := Some ''blue''\<rparr>) = Some ''blue'' \<and>
   prototypes_untouched ex_store \<and>
   ''blue'' \<notin> dom (item_categories (data ex_store)) \<and>
   inherited_name ''blue'' = None \<and>
   fst (addItem (Some (startOnly ''i2'' DateNull\<lparr>item_className := Some ''blue''\<rparr>)) ex_store) \<and>
   item_categories (data (snd (addItem
       (Some (startOnly ''i2'' DateNull\<lparr>item_className := Some ''blue''\<rparr>)) ex_store))) =
     [''red'' \<mapsto> DEFAULT_STYLE, ''blue'' \<mapsto> DEFAULT_STYLE]"
proof -
  let ?d = "startOnly ''i2'' DateNull\<lparr>item_className := Some ''blue''\<rparr>"
  have a: "item_className ?d = Some ''blue''" by simp
  have b: "''blue'' \<notin> dom (item_categories (data ex_store))"
    by (simp add: ex_store_def ex_document_def)
  have i: "inherited_name ''blue'' = None"
    by (simp add: inherited_name_def Object_prototype_def)
  have c: "fst (addItem (Some ?d) ex_store)"
    by (simp add: addItem_def ex_store_def ex_document_def ex_item_def startOnly_def)
  have d: "item_categories (data ex_store) = [''red'' \<mapsto> DEFAULT_STYLE]"
    by (simp add: ex_store_def ex_document_def)
  have u: "prototypes_untouched ex_store" by (simp add: ex_store_def)
  from u a b i c category_created_once[of ex_store ?d "''blue''"] show ?thesis
    by (simp add: d)
qed

text \<open>
  The claim as stated, for every operation of the store, fails on \<open>load\<close>: after loading
  a file that does not parse, the category \<open>red\<close> of the sample store is gone.
\<close>

theorem load_drops_categories:
  "''red'' \<in> dom (item_categories (data ex_store)) \<and>
   ''red'' \<notin> dom (item_categories (data (load (Inl SyntaxError) ex_store)))"
  by (simp add: ex_store_def ex_document_def load_def dispatchEvent_def empty_object_def
        addMissingFields_def)

text \<open>
  The case left out above: for the \<open>className\<close> \<open>constructor\<close> the test
  \<open>className in item_categories\<close> holds on every object, and no entry is made.
\<close>

lemma inherited_className_creates_nothing:
  "''constructor'' \<notin> dom (item_categories (data ex_store)) \<and>
   fst (addItem (Some (startOnly ''i2'' DateNull\<lparr>item_className := Some ''constructor''\<rparr>))
     ex_store) \<and>
   item_categories (data (snd (addItem
     (Some (startOnly ''i2'' DateNull\<lparr>item_className := Some ''constructor''\<rparr>)) ex_store))) =
   item_categories (data ex_store)"
  by (simp add: addItem_def ex_store_def ex_document_def ex_item_def startOnly_def
        dispatchEvent_def ensureCategory_def inherited_name_def Object_prototype_def)

section \<open>Eras in the widget\<close>

text \<open>
  The keys of the eras map are unique in a parsed object, and the operations of the store
  keep them so.
\<close>

lemma assign_keys: "fst ` set (assign k v ps) = insert k (fst ` set ps)"
proof (induction ps)
  case Nil
  then show ?case by simp
next
  case (Cons p ps)
  obtain k' v' where p: "p = (k', v')" by (cases p)
  show ?case
  proof (cases "k' = k")
    case True
    with p show ?thesis by auto
  next
    case False
    with p Cons.IH show ?thesis by (simp add: insert_commute)
  qed
qed

lemma distinct_assign: "distinct (map fst ps) \<Longrightarrow> distinct (map fst (assign k v ps))"
proof (induction ps)
  case Nil then show ?case by simp
next
  case (Cons p ps)
  then show ?case using assign_keys[of k v ps] by (cases p) auto
qed

lemma distinct_set_prop:
  "distinct (map fst (entries c)) \<Longrightarrow> distinct (map fst (entries (set_prop k v c)))"
  by (simp add: set_prop_def entries_with_entries distinct_assign)

lemma distinct_delete_prop:
  "distinct (map fst (entries c)) \<Longrightarrow> distinct (map fst (entries (delete_prop k c)))"
  by (simp add: delete_prop_def entries_with_entries distinct_map_filter)

lemma with_groups_eras: "eras (data (snd (with_groups s r))) = eras (data s)"
  by (cases r) (simp add: with_groups_def)

lemma run_keeps_keys_unique:
  assumes "distinct (map fst (entries (eras (data s))))"
  shows "distinct (map fst (entries (eras (data (snd (run op s))))))"
  using assms
  by (cases op)
     (auto simp: returned_def addGroup_def removeGroup_def renameGroup_def
        toggleGroupVisibility_def with_groups_eras addItem_def updateItem_def removeItem_def
        addMarker_def removeMarker_def updateMarker_def addEra_def removeEra_def
        updateEra_def toggleEraVisibility_def dispatchEvent_def distinct_set_prop
        distinct_delete_prop split: option.splits)

lemma addEras_json: "json (addEras es t) = json t"
  by (induction es t rule: addEras.induct) auto

lemma addEras_items:
  "ds_items (addEras es t) = ds_items t @ map (\<lambda>p. eraItem (fst p) (snd p)) (filter shown es)"
  by (induction es t rule: addEras.induct) (auto simp: shown_def)

lemma addEras_console:
  "console (addEras es t) = console t @ map (\<lambda>p. diagnostic (fst p)) (filter refused es)"
  by (induction es t rule: addEras.induct) (auto simp: refused_def diagnostic_def)

lemma eraEntries_eq:
  "eraEntries t =
     map (\<lambda>p. eraItem (fst p) (snd p)) (filter shown (entries (eras (data (json t)))))"
  by (simp add: eraEntries_def refresh_def addEras_items)

lemma newMessages_eq:
  "newMessages t =
     map (\<lambda>p. diagnostic (fst p)) (filter refused (entries (eras (data (json t)))))"
  by (simp add: newMessages_def refresh_def addEras_console)

lemma filter_key_distinct:
  assumes "distinct (map fst es)" and "(u, e) \<in> set es"
  shows "filter (\<lambda>p. fst p = u) es = [(u, e)]"
  using assms
proof (induction es)
  case Nil
  then show ?case by simp
next
  case (Cons p es)
  show ?case
  proof (cases "fst p = u")
    case True
    with Cons.prems have "p = (u, e)" by (cases p) force
    moreover from True Cons.prems have "u \<notin> fst ` set es" by simp
    then have "filter (\<lambda>p. fst p = u) es = []"
      by (auto simp: filter_empty_conv)
    ultimately show ?thesis by simp
  next
    case False
    with Cons show ?thesis by auto
  qed
qed

lemma eraEntries_of_key:
  assumes "distinct (map fst (entries (eras (data (json t)))))"
    and "(u, e) \<in> set (entries (eras (data (json t))))"
  shows "filter (\<lambda>x. item_id x = Some u) (eraEntries t) =
           (if shown (u, e) then [eraItem u e] else [])"
proof -
  let ?es = "entries (eras (data (json t)))"
  have "filter (\<lambda>x. item_id x = Some u) (eraEntries t) =
        map (\<lambda>p. eraItem (fst p) (snd p)) (filter shown (filter (\<lambda>p. fst p = u) ?es))"
    by (simp add: eraEntries_eq filter_map o_def eraItem_def conj_commute)
  also have "filter (\<lambda>p. fst p = u) ?es = [(u, e)]"
    using assms by (rule filter_key_distinct)
  finally show ?thesis by simp
qed

lemma newMessages_of_key:
  assumes "distinct (map fst (entries (eras (data (json t)))))"
    and "(u, e) \<in> set (entries (eras (data (json t))))"
  shows "filter (\<lambda>m. m = diagnostic u) (newMessages t) =
           (if refused (u, e) then [diagnostic u] else [])"
proof -
  let ?es = "entries (eras (data (json t)))"
  have "filter (\<lambda>m. m = diagnostic u) (newMessages t) =
        map (\<lambda>p. diagnostic (fst p)) (filter refused (filter (\<lambda>p. fst p = u) ?es))"
    by (simp add: newMessages_eq filter_map o_def diagnostic_def conj_commute)
  also have "filter (\<lambda>p. fst p = u) ?es = [(u, e)]"
    using assms by (rule filter_key_distinct)
  finally show ?thesis by simp
qed

lemma number_le_iff:
  "a \<noteq> None \<Longrightarrow> b \<noteq> None \<Longrightarrow> number_le b a \<longleftrightarrow> \<not> number_less a b"
  by (cases a; cases b) auto

lemma number_less_not_le: "number_less a b \<Longrightarrow> \<not> number_le b a"
  by (cases a; cases b) auto

text \<open>
  Claim C6, amended. Among the entries that \<open>refresh\<close> adds for the eras map (keys being
  unique, as in every object): an era with two valid dates whose end is not strictly
  after its start has no entry, and its diagnostic is reported once if it is visible and
  not at all if it is hidden; a visible era with end strictly after start has exactly
  one entry, a background item whose id is the uuid, and no diagnostic; a hidden era
  has no entry and no diagnostic, whatever its dates. \<open>refresh\<close> does not write to the
  store, so every era stays in the eras map as it was. Nothing is said here about a
  visible era one of whose dates is no date.
\<close>

theorem era_materialization:
  assumes "distinct (map fst (entries (eras (data (json t)))))"
    and "(u, e) \<in> set (entries (eras (data (json t))))"
  shows "json (refresh t) = json t \<and>
         (valid_dates e \<and> \<not> ends_after_start e \<longrightarrow>
            filter (\<lambda>x. item_id x = Some u) (eraEntries t) = [] \<and>
            filter (\<lambda>m. m = diagnostic u) (newMessages t) =
              (if era_visible e then [diagnostic u] else [])) \<and>
         (era_visible e \<and> ends_after_start e \<longrightarrow>
            filter (\<lambda>x. item_id x = Some u) (eraEntries t) = [eraItem u e] \<and>
            item_id (eraItem u e) = Some u \<and> item_type (eraItem u e) = Some BACKGROUND \<and>
            filter (\<lambda>m. m = diagnostic u) (newMessages t) = []) \<and>
         (\<not> era_visible e \<longrightarrow>
            filter (\<lambda>x. item_id x = Some u) (eraEntries t) = [] \<and>
            filter (\<lambda>m. m = diagnostic u) (newMessages t) = [])"
proof -
  have a: "valid_dates e \<Longrightarrow> \<not> ends_after_start e \<Longrightarrow>
      number_le (getTime (era_end e)) (getTime (era_start e))"
    by (simp add: valid_dates_def ends_after_start_def number_le_iff)
  have b: "ends_after_start e \<Longrightarrow> \<not> number_le (getTime (era_end e)) (getTime (era_start e))"
    by (simp add: ends_after_start_def number_less_not_le)
  show ?thesis
    using eraEntries_of_key[OF assms] newMessages_of_key[OF assms] a b
    by (auto simp: refresh_def addEras_json shown_def refused_def eraItem_def)
qed

theorem era_materialization_witness:
  "distinct (map fst (entries (eras (data (json ex_timeline))))) \<and>
   (''e1'', ex_era) \<in> set (entries (eras (data (json ex_timeline)))) \<and>
   era_visible ex_era \<and> ends_after_start ex_era \<and>
   json (refresh ex_timeline) = json ex_timeline \<and>
   filter (\<lambda>x. item_id x = Some ''e1'') (eraEntries ex_timeline) = [eraItem ''e1'' ex_era] \<and>
   item_type (eraItem ''e1'' ex_era) = Some BACKGROUND \<and>
   filter (\<lambda>m. m = diagnostic ''e1'') (newMessages ex_timeline) = []"
proof -
  have e: "entries (eras (data (json ex_timeline))) = [(''e1'', ex_era)]"
    by (simp add: ex_timeline_def ex_store_def ex_document_def)
  have a: "distinct (map fst (entries (eras (data (json ex_timeline)))))"
    by (simp add: e)
  have b: "(''e1'', ex_era) \<in> set (entries (eras (data (json ex_timeline))))"
    by (simp add: e)
  have c: "era_visible ex_era \<and> ends_after_start ex_era"
    by (simp add: ex_era_def ends_after_start_def TimeClip_def)
  from a b c era_materialization[OF a b] show ?thesis by simp
qed

text \<open>
  The claim as stated, with a diagnostic for every era whose end is not after its start,
  fails on a hidden one: nothing is drawn and nothing is reported.
\<close>

theorem hidden_invalid_era_without_diagnostic:
  "(''e9'', ex_hidden_era) \<in> set (entries (eras (data (json ex_hidden_timeline)))) \<and>
   getTime (era_start ex_hidden_era) = Some 20240101 \<and>
   getTime (era_end ex_hidden_era) = Some 20230101 \<and>
   eraEntries ex_hidden_timeline = [] \<and>
   console (refresh ex_hidden_timeline) = []"
  by (simp add: ex_hidden_timeline_def ex_hidden_era_def eraEntries_def refresh_def
        ex_document_def TimeClip_def)

text \<open>
  The case left out above: a visible era whose start is the empty text has \<open>NaN\<close> as its
  start time, the comparison is false, and the era is drawn without a diagnostic.
\<close>

lemma cleared_start_is_drawn:
  "era_visible ex_cleared_era \<and> getTime (era_start ex_cleared_era) = None \<and>
   eraEntries ex_cleared_timeline = [eraItem ''e8'' ex_cleared_era] \<and>
   console (refresh ex_cleared_timeline) = []"
  by (simp add: ex_cleared_timeline_def ex_cleared_era_def eraEntries_def refresh_def
        ex_document_def ex_item_def)

section \<open>Loading\<close>

lemma sortGroups_Nil: "sortGroups [] = Inr []"
  by (subst sortGroups.simps) simp

lemma load_after_error:
  "sortGroups_root r = Inl e \<Longrightarrow>
   data (load (Inr r) s) = addMissingFields empty_object None \<and>
   data (load (Inl e') s) = addMissingFields empty_object None"
  by (simp add: load_def dispatchEvent_def)

lemma load_after_sort:
  "sortGroups_root r = Inr gs \<Longrightarrow> data (load (Inr r) s) = addMissingFields r (Some gs)"
  by (simp add: load_def dispatchEvent_def)

text \<open>
  Claim C4, on the code. The claim asks that a file which parses to a record keeps every
  top-level field it has, and that a missing \<open>eras\<close> gets an empty string-keyed map. For
  a file with items but without \<open>groups\<close> the sort, which runs before the missing fields
  are added, throws; the \<open>catch\<close> replaces the record by \<open>{}\<close> and the items are lost.
  The default that \<open>eras\<close> gets is an array.
\<close>

theorem load_drops_fields_without_groups:
  "raw_items ex_raw_no_groups = Some [ex_item] \<and>
   items (data (load (Inr ex_raw_no_groups) ex_store)) = [] \<and>
   eras (data (load (Inr ex_raw_no_groups) ex_store)) = JsArray []"
  by (simp add: ex_raw_no_groups_def empty_object_def load_def sortGroups_root_def
        dispatchEvent_def addMissingFields_def)

text \<open>
  The same loss when the file has its groups but one of them has no \<open>childs\<close>: the sort
  does not come to an end, and what the engine throws is caught in the same way.
\<close>

lemma load_drops_fields_without_childs:
  "raw_items ex_raw_no_childs = Some [ex_item] \<and>
   sortGroups_root ex_raw_no_childs = Inl RangeError \<and>
   items (data (load (Inr ex_raw_no_childs) ex_store)) = [] \<and>
   groups (data (load (Inr ex_raw_no_childs) ex_store)) = []"
proof -
  have e: "sortGroups_root ex_raw_no_childs = Inl RangeError"
    unfolding sortGroups_root_def ex_raw_no_childs_def
    by (simp, subst sortGroups.simps, simp)
  show ?thesis
    using load_after_error[OF e, of ex_store]
    by (simp add: e) (simp add: ex_raw_no_childs_def addMissingFields_def empty_object_def)
qed

section \<open>Saving and loading again\<close>

text \<open>
  Claim C3, on the code. The claim asks that saving and loading again gives back all six
  collections. From any store: \<open>load\<close> of a file that does not parse (or has no \<open>eras\<close>)
  sets \<open>eras\<close> to an empty array; \<open>addEra\<close> then stores the era as a named property of
  that array; \<open>save\<close> writes the array as \<open>[]\<close>; and after \<open>load\<close> of what was written the
  era is gone. The document saved is valid for \<open>isValid()\<close>: all six fields are there.
\<close>

theorem roundtrip_loses_era:
  "has_key ''e1'' (eras (data (snd (addEra ''e1'' ''New era''
       (DateObject (Some 1)) (DateObject (Some 2)) ''#cccccc''
       (load (Inl SyntaxError) s))))) \<and>
   \<not> has_key ''e1'' (eras (data (load
       (Inr (save (snd (addEra ''e1'' ''New era''
          (DateObject (Some 1)) (DateObject (Some 2)) ''#cccccc''
          (load (Inl SyntaxError) s)))))
       (snd (addEra ''e1'' ''New era''
          (DateObject (Some 1)) (DateObject (Some 2)) ''#cccccc''
          (load (Inl SyntaxError) s))))))"
  by (simp add: load_def addEra_def save_def stringify_def sortGroups_root_def
        sortGroups_Nil dispatchEvent_def empty_object_def addMissingFields_def has_key_def
        own_key_def set_prop_def inherited_name_def inherited_array_name_def
        Object_prototype_def Array_prototype_def)

end
